theory Spec2Isabelle
  imports Complex_Main
begin

section \<open>Errors\<close>

text \<open>The exceptions the modelled code can raise.\<close>

datatype error =
    AssertionError
  | IndexError
  | TypeError
  | ValueError
  | KeyError string
  | NameError
  | ZeroDivisionError
  | StopIteration
  | FileNotFoundError
  | RuntimeError
  | RecursionError
  | AttributeError

section \<open>Arrays\<close>

text \<open>
  A two-dimensional array is its number of columns and the list of its rows, so that an
  array without rows still has a width: a batch of no examples over ten classes has shape
  \<open>(0, 10)\<close>. The entries are real numbers: the rounding and the overflow of
  floating-point arithmetic are outside the model. A scalar result is a number or NaN,
  which is what the mean of an empty array is.
\<close>

datatype tensor = Tensor (ncols: nat) (rows: "real list list")

datatype scalar = Num real | NaN

definition shape :: "tensor \<Rightarrow> nat \<times> nat" where
  "shape t = (length (rows t), ncols t)"

fun scalar_add :: "scalar \<Rightarrow> scalar \<Rightarrow> scalar" where
  "scalar_add (Num x) (Num y) = Num (x + y)"
| "scalar_add _ _ = NaN"

fun scalar_div :: "scalar \<Rightarrow> nat \<Rightarrow> scalar" where
  "scalar_div (Num x) n = Num (x / real n)"
| "scalar_div NaN n = NaN"

text \<open>
  What the code runs in. \<open>jax.jit\<close> compiles the functions it decorates unless the
  configuration flag \<open>jax_disable_jit\<close> is set, and a compiled function accepts arrays
  as arguments, not a plain Python function. The source calls the methods \<open>exp\<close> and
  \<open>square\<close> on arrays; the arrays of \<open>jax.numpy\<close>, which the reference model and the
  abstraction model return, have neither method, and an array class that has them is the
  other case.
\<close>

record runtime =
  jit_disabled :: bool
  has_exp_square :: bool

text \<open>The methods \<open>exp\<close> and \<open>square\<close> of an array, elementwise where they exist.\<close>

definition texp :: "runtime \<Rightarrow> tensor \<Rightarrow> error + tensor" where
  "texp R t =
     (if has_exp_square R then Inr (Tensor (ncols t) (map (map exp) (rows t)))
      else Inl AttributeError)"

definition tsquare :: "runtime \<Rightarrow> tensor \<Rightarrow> error + tensor" where
  "tsquare R t =
     (if has_exp_square R then Inr (Tensor (ncols t) (map (map (\<lambda>x. x * x)) (rows t)))
      else Inl AttributeError)"

text \<open>Broadcasting of a binary operation: a dimension of size 1 is stretched.\<close>

definition broadcastable :: "nat \<times> nat \<Rightarrow> nat \<times> nat \<Rightarrow> bool" where
  "broadcastable s1 s2 =
     ((fst s1 = fst s2 \<or> fst s1 = 1 \<or> fst s2 = 1) \<and>
      (snd s1 = snd s2 \<or> snd s1 = 1 \<or> snd s2 = 1))"

definition broadcast_shape :: "nat \<times> nat \<Rightarrow> nat \<times> nat \<Rightarrow> nat \<times> nat" where
  "broadcast_shape s1 s2 =
     (if fst s1 = 1 then fst s2 else fst s1, if snd s1 = 1 then snd s2 else snd s1)"

definition broadcast_to :: "nat \<times> nat \<Rightarrow> tensor \<Rightarrow> tensor" where
  "broadcast_to s t =
     (let rs = (if length (rows t) = 1 then replicate (fst s) (hd (rows t)) else rows t)
      in Tensor (snd s) (map (\<lambda>r. if ncols t = 1 then replicate (snd s) (hd r) else r) rs))"

definition binop :: "(real \<Rightarrow> real \<Rightarrow> real) \<Rightarrow> tensor \<Rightarrow> tensor \<Rightarrow> error + tensor" where
  "binop f a b =
     (if broadcastable (shape a) (shape b)
      then let s = broadcast_shape (shape a) (shape b)
           in Inr (Tensor (snd s)
                (map2 (map2 f) (rows (broadcast_to s a)) (rows (broadcast_to s b))))
      else Inl TypeError)"

definition tsum_last :: "tensor \<Rightarrow> real list" where
  "tsum_last t = map sum_list (rows t)"

definition vmean :: "real list \<Rightarrow> scalar" where
  "vmean xs = (if xs = [] then NaN else Num (sum_list xs / real (length xs)))"

definition tmean :: "tensor \<Rightarrow> scalar" where
  "tmean t = vmean (concat (rows t))"

section \<open>The abstraction trainer\<close>

text \<open>
  \<open>TrainState\<close> is the training state of the optimiser library: a step counter, the
  function applying the abstraction model, its parameters, the optimiser and the
  optimiser's state. Gradients have the type of the parameters.
\<close>

record ('p, 'o) TrainState =
  step :: int
  apply_fn :: "'p \<Rightarrow> tensor list \<Rightarrow> tensor list \<times> tensor list \<times> tensor"
  params :: 'p
  tx :: "'p \<Rightarrow> 'o \<Rightarrow> 'p \<Rightarrow> 'p \<times> 'o"
  opt_state :: 'o

type_synonym metrics = "(string \<times> scalar) list"

text \<open>
  \<open>output_loss = (logits.exp() * (logits - predicted_logits)).sum(axis=-1).mean()\<close>,
  the left operand of the product first.
\<close>

definition output_loss :: "runtime \<Rightarrow> tensor \<Rightarrow> tensor \<Rightarrow> error + scalar" where
  "output_loss R logits predicted_logits =
     (case texp R logits of
        Inl e \<Rightarrow> Inl e
      | Inr expd \<Rightarrow>
         (case binop (-) logits predicted_logits of
            Inl e \<Rightarrow> Inl e
          | Inr diff \<Rightarrow>
             (case binop (*) expd diff of
                Inl e \<Rightarrow> Inl e
              | Inr weighted \<Rightarrow> Inr (vmean (tsum_last weighted)))))"

text \<open>
  The loop \<open>for abstraction, predicted_abstraction in zip(...): consistency_loss += ...\<close>,
  with the running sum as accumulator.
\<close>

fun consistency_sum :: "runtime \<Rightarrow> scalar \<Rightarrow> (tensor \<times> tensor) list \<Rightarrow> error + scalar" where
  "consistency_sum R acc [] = Inr acc"
| "consistency_sum R acc ((abstraction, predicted_abstraction) # rest) =
     (case binop (-) abstraction predicted_abstraction of
        Inl e \<Rightarrow> Inl e
      | Inr diff \<Rightarrow>
         (case tsquare R diff of
            Inl e \<Rightarrow> Inl e
          | Inr sq \<Rightarrow> consistency_sum R (scalar_add acc (tmean sq)) rest))"

text \<open>
  The inner function \<open>loss_fn(params)\<close> of \<open>apply_model\<close>; \<open>logits\<close> and
  \<open>activations\<close> are the variables it closes over. It returns the loss and the
  auxiliary pair \<open>(output_loss, consistency_loss)\<close>.
\<close>

definition loss_fn ::
  "runtime \<Rightarrow> ('p \<Rightarrow> tensor list \<Rightarrow> tensor list \<times> tensor list \<times> tensor) \<Rightarrow> tensor
     \<Rightarrow> tensor list \<Rightarrow> 'p \<Rightarrow> error + (scalar \<times> (scalar \<times> scalar))" where
  "loss_fn R apply logits activations ps =
     (case apply ps activations of (abstractions, predicted_abstractions, predicted_logits) \<Rightarrow>
      if length abstractions \<noteq> length predicted_abstractions then Inl AssertionError
      else (case abstractions of
          [] \<Rightarrow> Inl IndexError
        | a0 # _ \<Rightarrow>
           (case shape a0 of (b, d) \<Rightarrow>
            if shape (hd predicted_abstractions) \<noteq> (b, d) then Inl AssertionError
            else if \<not> (shape logits = (b, 10) \<and> (b, 10) = shape predicted_logits)
              then Inl AssertionError
            else (case output_loss R logits predicted_logits of
                Inl e \<Rightarrow> Inl e
              | Inr ol \<Rightarrow>
                 (case consistency_sum R (Num 0)
                         (zip (tl abstractions) predicted_abstractions) of
                    Inl e \<Rightarrow> Inl e
                  | Inr s \<Rightarrow>
                     (let cl = scalar_div s (length predicted_abstractions)
                      in Inr (scalar_add ol cl, (ol, cl))))))))"

text \<open>
  \<open>apply_model\<close>, decorated with \<open>jax.jit\<close>: unless jit is disabled, the call raises
  \<open>TypeError\<close> for its argument \<open>forward_fn\<close>, a plain function, before the body
  runs. The differentiation operator \<open>jax.value_and_grad\<close> belongs to the numerical
  library; its gradient part is the parameter \<open>D\<close>, which receives the function whose
  value is differentiated (the first component of \<open>loss_fn\<close>) and the point. The value
  part evaluates \<open>loss_fn\<close> at \<open>state.params\<close>, so an exception raised there leaves
  \<open>apply_model\<close> before \<open>D\<close> is used.
\<close>

definition apply_model ::
  "runtime \<Rightarrow> (('p \<Rightarrow> error + scalar) \<Rightarrow> 'p \<Rightarrow> 'p) \<Rightarrow> ('p, 'o) TrainState \<Rightarrow> 'x \<times> 'l \<times> 'k
     \<Rightarrow> ('x \<Rightarrow> tensor \<times> tensor list) \<Rightarrow> error + ('p \<times> metrics)" where
  "apply_model R D state batch forward_fn =
     (if \<not> jit_disabled R then Inl TypeError
      else case batch of (images, labels, backdoored) \<Rightarrow>
      case forward_fn images of (logits, activations) \<Rightarrow>
      case loss_fn R (apply_fn state) logits activations (params state) of
        Inl e \<Rightarrow> Inl e
      | Inr (loss, (ol, cl)) \<Rightarrow>
          Inr (D (\<lambda>ps. map_sum id fst (loss_fn R (apply_fn state) logits activations ps))
                 (params state),
               [(''loss'', loss), (''output_loss'', ol), (''consistency_loss'', cl)]))"

text \<open>
  Modelled from the spec: \<open>TrainState.apply_gradients\<close> is a method of the optimiser
  library, not of this repository. By the spec it applies one optimiser step and returns
  a new \<open>TrainState\<close> with an incremented step counter. The field \<open>tx\<close> maps the
  gradients, the optimiser state and the parameters to the new parameters and the new
  optimiser state.
\<close>

definition apply_gradients :: "('p, 'o) TrainState \<Rightarrow> 'p \<Rightarrow> ('p, 'o) TrainState" where
  "apply_gradients state grads =
     (case tx state grads (opt_state state) (params state) of (new_params, new_opt_state) \<Rightarrow>
      state\<lparr>step := step state + 1, params := new_params, opt_state := new_opt_state\<rparr>)"

definition update_model :: "('p, 'o) TrainState \<Rightarrow> 'p \<Rightarrow> ('p, 'o) TrainState" where
  "update_model state grads = apply_gradients state grads"

subsection \<open>The epoch driver\<close>

text \<open>
  What the trainer reports: a scalar sent to the metrics logger (title, series, value,
  iteration) and the line logged at level METRICS after an epoch (epoch, train loss,
  train accuracy, test loss, test accuracy).
\<close>

datatype event =
    Scalar string string scalar int
  | MetricsLine int scalar scalar scalar scalar

record 'b loader =
  dataset_size :: nat
  batch_size :: nat
  batches :: "'b list"

text \<open>
  A call of \<open>apply_model\<close> binds its positional arguments to \<open>state\<close>, \<open>batch\<close> and
  \<open>forward_fn\<close>; a call that passes no third argument raises \<open>TypeError\<close>.
\<close>

definition apply_model_call ::
  "runtime \<Rightarrow> (('p \<Rightarrow> error + scalar) \<Rightarrow> 'p \<Rightarrow> 'p) \<Rightarrow> ('p, 'o) TrainState \<Rightarrow> 'x \<times> 'l \<times> 'k
     \<Rightarrow> ('x \<Rightarrow> tensor \<times> tensor list) option \<Rightarrow> error + ('p \<times> metrics)" where
  "apply_model_call R D state batch forward_arg =
     (case forward_arg of
        None \<Rightarrow> Inl TypeError
      | Some forward_fn \<Rightarrow> apply_model R D state batch forward_fn)"

text \<open>\<open>epoch_metrics[k].append(v)\<close> on a \<open>defaultdict(list)\<close>, keys in insertion order.\<close>

fun append_metric ::
  "(string \<times> scalar list) list \<Rightarrow> string \<Rightarrow> scalar \<Rightarrow> (string \<times> scalar list) list" where
  "append_metric [] k v = [(k, [v])]"
| "append_metric ((k', vs) # rest) k v =
     (if k' = k then (k', vs @ [v]) # rest else (k', vs) # append_metric rest k v)"

text \<open>The metrics logger: the dummy logger drops the report.\<close>

definition report_scalar :: "bool \<Rightarrow> event list \<Rightarrow> event \<Rightarrow> event list" where
  "report_scalar dummy lg ev = (if dummy then lg else lg @ [ev])"

fun record_metrics ::
  "bool \<Rightarrow> int \<Rightarrow> (string \<times> scalar list) list \<Rightarrow> event list \<Rightarrow> metrics
     \<Rightarrow> (string \<times> scalar list) list \<times> event list" where
  "record_metrics dummy it em lg [] = (em, lg)"
| "record_metrics dummy it em lg ((k, v) # ms) =
     record_metrics dummy it (append_metric em k v)
       (report_scalar dummy lg (Scalar ''Training'' k v it)) ms"

text \<open>\<open>np.mean(v)\<close> of the list of a metric's values, which is never empty.\<close>

fun scalar_sum :: "scalar list \<Rightarrow> scalar" where
  "scalar_sum [] = Num 0"
| "scalar_sum (v # vs) = scalar_add v (scalar_sum vs)"

definition scalar_mean :: "scalar list \<Rightarrow> scalar" where
  "scalar_mean vs = scalar_div (scalar_sum vs) (length vs)"

text \<open>
  The loop \<open>for batch in train_loader\<close> of \<open>train_epoch\<close>; the iteration reported
  is the step counter of the updated state. \<open>train_epoch\<close> first divides the dataset
  size by the batch size, and last takes the mean of each metric's list.
\<close>

fun train_batches ::
  "runtime \<Rightarrow> (('p \<Rightarrow> error + scalar) \<Rightarrow> 'p \<Rightarrow> 'p) \<Rightarrow> bool \<Rightarrow> ('x \<Rightarrow> tensor \<times> tensor list)
     \<Rightarrow> ('p, 'o) TrainState \<Rightarrow> (string \<times> scalar list) list \<Rightarrow> event list
     \<Rightarrow> ('x \<times> 'l \<times> 'k) list
     \<Rightarrow> event list \<times> (error + (('p, 'o) TrainState \<times> (string \<times> scalar list) list))" where
  "train_batches R D dummy forward_fn state em lg [] = (lg, Inr (state, em))"
| "train_batches R D dummy forward_fn state em lg (batch # rest) =
     (case apply_model_call R D state batch (Some forward_fn) of
        Inl e \<Rightarrow> (lg, Inl e)
      | Inr (grads, ms) \<Rightarrow>
         (let state' = update_model state grads
          in case record_metrics dummy (step state') em lg ms of (em', lg') \<Rightarrow>
             train_batches R D dummy forward_fn state' em' lg' rest))"

definition train_epoch ::
  "runtime \<Rightarrow> (('p \<Rightarrow> error + scalar) \<Rightarrow> 'p \<Rightarrow> 'p) \<Rightarrow> bool \<Rightarrow> ('p, 'o) TrainState
     \<Rightarrow> ('x \<times> 'l \<times> 'k) loader \<Rightarrow> 'r \<Rightarrow> event list \<Rightarrow> ('x \<Rightarrow> tensor \<times> tensor list)
     \<Rightarrow> event list \<times> (error + (('p, 'o) TrainState \<times> metrics))" where
  "train_epoch R D dummy state train_loader rng lg forward_fn =
     (if batch_size train_loader = 0 then (lg, Inl ZeroDivisionError)
      else case train_batches R D dummy forward_fn state [] lg (batches train_loader) of
          (lg', Inl e) \<Rightarrow> (lg', Inl e)
        | (lg', Inr (state', em)) \<Rightarrow>
            (lg', Inr (state', map (\<lambda>(k, vs). (k, scalar_mean vs)) em)))"

subsection \<open>The top-level driver\<close>

record config =
  num_epochs :: int
  cfg_batch_size :: nat
  learning_rate :: real
  momentum :: real
  abstract_dim :: nat
  model_path :: string
  debug :: bool
  no_clearml :: bool

text \<open>
  The collaborators of \<open>train_and_evaluate\<close> that this module imports, and what it runs
  in: the runtime, the data loaders, the random keys, the initial training state and the
  forward function of the frozen reference model loaded from \<open>model_path\<close>.
\<close>

record ('p, 'o, 'x, 'l, 'k, 'r) env =
  rt :: runtime
  get_data_loaders :: "nat \<Rightarrow> ('x \<times> 'l \<times> 'k) loader \<times> ('x \<times> 'l \<times> 'k) loader"
  PRNGKey :: "int \<Rightarrow> 'r"
  split :: "'r \<Rightarrow> 'r \<times> 'r"
  create_train_state :: "'r \<Rightarrow> config \<Rightarrow> ('p, 'o) TrainState"
  reference_forward :: "string \<Rightarrow> 'x \<Rightarrow> tensor \<times> tensor list"
  value_and_grad :: "('p \<Rightarrow> error + scalar) \<Rightarrow> 'p \<Rightarrow> 'p"

definition lookup_metric :: "metrics \<Rightarrow> string \<Rightarrow> error + scalar" where
  "lookup_metric ms k = (case map_of ms k of None \<Rightarrow> Inl (KeyError k) | Some v \<Rightarrow> Inr v)"

text \<open>Multiplication of a scalar by a number, for the percentages of the METRICS line.\<close>

fun scalar_times :: "scalar \<Rightarrow> real \<Rightarrow> scalar" where
  "scalar_times (Num x) c = Num (x * c)"
| "scalar_times NaN c = NaN"

text \<open>
  The arguments of the METRICS line, evaluated left to right: \<open>train_metrics["loss"]\<close>,
  \<open>train_metrics["accuracy"] * 100\<close>, \<open>test_metrics["loss"]\<close>,
  \<open>test_metrics["accuracy"] * 100\<close>.
\<close>

definition metrics_line :: "int \<Rightarrow> metrics \<Rightarrow> metrics \<Rightarrow> error + event" where
  "metrics_line epoch train_metrics test_metrics =
     (case lookup_metric train_metrics ''loss'' of Inl e \<Rightarrow> Inl e | Inr trl \<Rightarrow>
      case lookup_metric train_metrics ''accuracy'' of Inl e \<Rightarrow> Inl e | Inr tra \<Rightarrow>
      case lookup_metric test_metrics ''loss'' of Inl e \<Rightarrow> Inl e | Inr tel \<Rightarrow>
      case lookup_metric test_metrics ''accuracy'' of Inl e \<Rightarrow> Inl e | Inr tea \<Rightarrow>
        Inr (MetricsLine epoch trl (scalar_times tra 100) tel (scalar_times tea 100)))"

text \<open>
  The loop \<open>for epoch in range(1, config.num_epochs + 1)\<close>. The evaluation call is
  \<open>apply_model(state, test_batch)\<close>, with two arguments.
\<close>

fun epochs ::
  "('p, 'o, 'x, 'l, 'k, 'r) env \<Rightarrow> bool \<Rightarrow> ('x \<times> 'l \<times> 'k) loader \<Rightarrow> ('x \<times> 'l \<times> 'k) loader
     \<Rightarrow> ('x \<Rightarrow> tensor \<times> tensor list) \<Rightarrow> ('p, 'o) TrainState \<Rightarrow> 'r \<Rightarrow> event list \<Rightarrow> int list
     \<Rightarrow> event list \<times> (error + ('p, 'o) TrainState)" where
  "epochs E dummy train_loader test_loader forward_fn state rng lg [] = (lg, Inr state)"
| "epochs E dummy train_loader test_loader forward_fn state rng lg (epoch # rest) =
     (case split E rng of (rng', input_rng) \<Rightarrow>
      let lg1 = report_scalar dummy lg
                  (Scalar ''epoch'' ''epoch'' (Num (real_of_int epoch)) (step state))
      in case train_epoch (rt E) (value_and_grad E) dummy state train_loader input_rng lg1
                forward_fn of
          (lg2, Inl e) \<Rightarrow> (lg2, Inl e)
        | (lg2, Inr (state', train_metrics)) \<Rightarrow>
           (case batches test_loader of
              [] \<Rightarrow> (lg2, Inl StopIteration)
            | test_batch # _ \<Rightarrow>
               (case apply_model_call (rt E) (value_and_grad E) state' test_batch None of
                  Inl e \<Rightarrow> (lg2, Inl e)
                | Inr (_, test_metrics) \<Rightarrow>
                   (case metrics_line epoch train_metrics test_metrics of
                      Inl e \<Rightarrow> (lg2, Inl e)
                    | Inr line \<Rightarrow>
                        epochs E dummy train_loader test_loader forward_fn state' rng'
                          (lg2 @ [line]) rest))))"

text \<open>
  \<open>train_and_evaluate\<close>. In debug mode the first statement, which would disable jit,
  reads the name \<open>jax_config\<close>, which the module neither imports nor defines.
\<close>

definition train_and_evaluate ::
  "('p, 'o, 'x, 'l, 'k, 'r) env \<Rightarrow> config \<Rightarrow> event list \<times> (error + ('p, 'o) TrainState)" where
  "train_and_evaluate E cfg =
     (if debug cfg then ([], Inl NameError)
      else case get_data_loaders E (cfg_batch_size cfg) of (train_loader, test_loader) \<Rightarrow>
           case split E (PRNGKey E 0) of (rng, init_rng) \<Rightarrow>
           epochs E (no_clearml cfg) train_loader test_loader
             (reference_forward E (model_path cfg)) (create_train_state E init_rng cfg)
             rng [] [1 .. num_epochs cfg])"

section \<open>Stored components\<close>

text \<open>
  A path is a normalised string. \<open>config.yaml\<close> under a path holds the attributes of a
  script configuration; a weights file holds learned parameters.
\<close>

type_synonym path = string

text \<open>
  Detector configurations: \<open>StoredDetector\<close> with its path, and the other variants,
  which live outside this module and are kept abstract.
\<close>

datatype 'c detector_cfg =
    StoredDetector path
  | OtherDetector 'c

text \<open>
  Model configurations. Modelled from the spec: \<open>PathConfigMixin.get_path\<close> is not in
  the source; a stored component points at a path, which is the argument of
  \<open>StoredModel\<close>.
\<close>

datatype model_cfg =
    StoredModel path
  | MLP int "int list"
  | CNN int "int list" "int list"

datatype computation =
    mlp int "int list"
  | cnn int "int list" "int list"

datatype model = Model computation

datatype 'c cfg_value =
    DetectorValue "'c detector_cfg"
  | ModelValue model_cfg
  | ScriptValue "(string \<times> 'c cfg_value) list"
  | OtherValue

datatype kind = DetectorConfig | ModelConfig | ScriptConfig

fun isinstance :: "'c cfg_value \<Rightarrow> kind \<Rightarrow> bool" where
  "isinstance (DetectorValue _) DetectorConfig = True"
| "isinstance (ModelValue _) ModelConfig = True"
| "isinstance (ScriptValue _) ScriptConfig = True"
| "isinstance _ _ = False"

record ('c, 'w) files =
  configs :: "path \<rightharpoonup> (string \<times> 'c cfg_value) list"
  weights :: "path \<rightharpoonup> 'w"

datatype log_entry =
    LoadingConfig "string option" path
  | MissingWeights path

fun is_warning :: "log_entry \<Rightarrow> bool" where
  "is_warning (LoadingConfig _ _) = False"
| "is_warning (MissingWeights _) = True"

text \<open>\<open>load_config\<close>: the debug line, the load of \<open>path / "config.yaml"\<close>, the checks.\<close>

definition load_config ::
  "('c, 'w) files \<Rightarrow> path \<Rightarrow> string option \<Rightarrow> kind \<Rightarrow> log_entry list \<times> (error + 'c cfg_value)" where
  "load_config F p name expected_type =
     ([LoadingConfig name p],
      case configs F p of
        None \<Rightarrow> Inl FileNotFoundError
      | Some cfg \<Rightarrow>
         (case name of
            None \<Rightarrow>
              (if \<not> isinstance (ScriptValue cfg) expected_type then Inl ValueError
               else Inr (ScriptValue cfg))
          | Some n \<Rightarrow>
             (case map_of cfg n of
                None \<Rightarrow> Inl ValueError
              | Some sub_cfg \<Rightarrow>
                  (if \<not> isinstance sub_cfg expected_type then Inl ValueError
                   else Inr sub_cfg))))"

text \<open>
  Modelled from the spec: \<open>AnomalyDetector.load_weights\<close> is not in the source. By the
  spec it restores the learned parameters from disk and fails with a not-found signal
  when they are absent. A detector is what its configuration built, with the parameters
  it has loaded, if any.
\<close>

record ('d, 'w) detector =
  built :: 'd
  loaded :: "'w option"

definition load_weights ::
  "('c, 'w) files \<Rightarrow> ('d, 'w) detector \<Rightarrow> path \<Rightarrow> error + ('d, 'w) detector" where
  "load_weights F det p =
     (case weights F p of
        None \<Rightarrow> Inl FileNotFoundError
      | Some w \<Rightarrow> Inr (det\<lparr>loaded := Some w\<rparr>))"

text \<open>
  \<open>StoredDetector.build\<close>, and the dispatch of \<open>detector_cfg.build\<close> on the variant.
  The first argument is the call depth that is left: at depth 0 the interpreter raises
  \<open>RecursionError\<close>. The build of the other variants is the parameter \<open>B\<close>. The
  result carries the lines logged in order. \<open>load_config\<close> returns a value of the
  expected type only, so the last case of the function does not arise.
\<close>

fun build ::
  "nat \<Rightarrow> ('c, 'w) files \<Rightarrow> ('c \<Rightarrow> 'm \<Rightarrow> 's \<Rightarrow> log_entry list \<times> (error + ('d, 'w) detector))
     \<Rightarrow> 'c detector_cfg \<Rightarrow> 'm \<Rightarrow> 's \<Rightarrow> log_entry list \<times> (error + ('d, 'w) detector)" where
  "build 0 F B cfg m save_dir = ([], Inl RecursionError)"
| "build (Suc n) F B (OtherDetector c) m save_dir = B c m save_dir"
| "build (Suc n) F B (StoredDetector p) m save_dir =
     (case load_config F p (Some ''detector'') DetectorConfig of
        (lg, Inl e) \<Rightarrow> (lg, Inl e)
      | (lg, Inr (DetectorValue detector_cfg)) \<Rightarrow>
          (if (case detector_cfg of StoredDetector q \<Rightarrow> q = p | OtherDetector _ \<Rightarrow> False)
           then (lg, Inl RuntimeError)
           else (case build n F B detector_cfg m save_dir of
               (lg', Inl e) \<Rightarrow> (lg @ lg', Inl e)
             | (lg', Inr det) \<Rightarrow>
                (case load_weights F det (p @ ''/detector'') of
                   Inr det' \<Rightarrow> (lg @ lg', Inr det')
                 | Inl FileNotFoundError \<Rightarrow> (lg @ lg' @ [MissingWeights p], Inr det)
                 | Inl e \<Rightarrow> (lg @ lg', Inl e))))
      | (lg, Inr _) \<Rightarrow> (lg, Inl ValueError))"

text \<open>
  \<open>ModelConfig.build_model\<close> for the three variants of this module, with the call
  depth that is left as for \<open>build\<close>.
\<close>

fun build_model ::
  "nat \<Rightarrow> ('c, 'w) files \<Rightarrow> model_cfg \<Rightarrow> log_entry list \<times> (error + model)" where
  "build_model 0 F cfg = ([], Inl RecursionError)"
| "build_model (Suc n) F (MLP output_dim hidden_dims) =
     ([], Inr (Model (mlp output_dim hidden_dims)))"
| "build_model (Suc n) F (CNN output_dim channels dense_dims) =
     ([], Inr (Model (cnn output_dim channels dense_dims)))"
| "build_model (Suc n) F (StoredModel p) =
     (case load_config F p (Some ''model'') ModelConfig of
        (lg, Inl e) \<Rightarrow> (lg, Inl e)
      | (lg, Inr (ModelValue model_cfg)) \<Rightarrow>
          (case build_model n F model_cfg of (lg', r) \<Rightarrow> (lg @ lg', r))
      | (lg, Inr _) \<Rightarrow> (lg, Inl ValueError))"

section \<open>Backdoored datasets\<close>

text \<open>
  Modelled from the spec: \<open>DatasetConfig\<close> and its other variants are not in the
  source. Python lists are objects: a store is the list of the live list objects and a
  reference is an index into it. A variant other than \<open>BackdoorData\<close> is
  \<open>Dataset a r\<close>: \<open>a\<close> is \<open>Some b\<close> when it carries the attribute
  \<open>no_augmentation\<close> with value \<open>b\<close>, and \<open>None\<close> when it does not and rejects the
  assignment with \<open>AttributeError\<close>, the case the handler in \<open>__post_init__\<close> is
  written for; \<open>r\<close> refers to its \<open>transforms\<close> list, which its \<open>get_transforms\<close>
  returns. \<open>BackdoorData f r original backdoor\<close> has the inherited fields
  \<open>no_augmentation = f\<close> and \<open>transforms = r\<close>.
\<close>

datatype 't dataset_cfg =
    Dataset "bool option" nat
  | BackdoorData bool nat "'t dataset_cfg" 't

fun get_no_augmentation :: "'t dataset_cfg \<Rightarrow> bool option" where
  "get_no_augmentation (Dataset a r) = a"
| "get_no_augmentation (BackdoorData f r orig bd) = Some f"

fun set_no_augmentation :: "'t dataset_cfg \<Rightarrow> bool \<Rightarrow> error + 't dataset_cfg" where
  "set_no_augmentation (Dataset None r) v = Inl AttributeError"
| "set_no_augmentation (Dataset (Some b) r) v = Inr (Dataset (Some v) r)"
| "set_no_augmentation (BackdoorData f r orig bd) v = Inr (BackdoorData v r orig bd)"

text \<open>
  \<open>BackdoorData.__post_init__\<close> on the fields of the node under construction. The
  \<open>__post_init__\<close> of the base class, when there is one, is the parameter \<open>super_post_init\<close>; it
  acts on the inherited fields.
\<close>

definition post_init ::
  "(bool \<times> nat \<Rightarrow> bool \<times> nat) option \<Rightarrow> bool \<Rightarrow> nat \<Rightarrow> 't dataset_cfg \<Rightarrow> 't
     \<Rightarrow> error + 't dataset_cfg" where
  "post_init super_post_init f r orig bd =
     (case (case super_post_init of None \<Rightarrow> (f, r) | Some g \<Rightarrow> g (f, r)) of (f', r') \<Rightarrow>
      if f' then
        (case set_no_augmentation orig f' of
           Inr orig' \<Rightarrow> Inr (BackdoorData f' r' orig' bd)
         | Inl AttributeError \<Rightarrow> Inr (BackdoorData f' r' orig bd)
         | Inl e \<Rightarrow> Inl e)
      else Inr (BackdoorData f' r' orig bd))"

text \<open>
  \<open>get_transforms\<close>. \<open>transforms = []\<close> allocates a new list at the end of the store,
  and each \<open>transforms += xs\<close> extends that object in place by the elements of the list
  \<open>xs\<close> refers to. The inherited \<open>get_transforms\<close> returns the \<open>transforms\<close> field.
\<close>

fun get_transforms :: "'t list list \<Rightarrow> 't dataset_cfg \<Rightarrow> 't list list \<times> nat" where
  "get_transforms h (Dataset a r) = (h, r)"
| "get_transforms h (BackdoorData f r orig bd) =
     (let t = length h; h0 = h @ [[]]
      in case get_transforms h0 orig of (h1, r1) \<Rightarrow>
         let h2 = h1[t := h1 ! t @ h1 ! r1];
             h3 = h2[t := h2 ! t @ h2 ! r];
             h4 = h3[t := h3 ! t @ [bd]]
         in (h4, t))"

text \<open>Every reference of a configuration points into the store.\<close>

fun refs_in :: "nat \<Rightarrow> 't dataset_cfg \<Rightarrow> bool" where
  "refs_in n (Dataset a r) = (r < n)"
| "refs_in n (BackdoorData f r orig bd) = (r < n \<and> refs_in n orig)"

text \<open>The list of transforms a configuration denotes in a store, without allocation.\<close>

fun transforms_of :: "'t list list \<Rightarrow> 't dataset_cfg \<Rightarrow> 't list" where
  "transforms_of h (Dataset a r) = h ! r"
| "transforms_of h (BackdoorData f r orig bd) = transforms_of h orig @ h ! r @ [bd]"

section \<open>Specification-side definitions and example inputs\<close>

text \<open>
  The array invariant of the representation: every row has the width of the array.
\<close>

definition is_array :: "tensor \<Rightarrow> bool" where
  "is_array t = (\<forall>r \<in> set (rows t). length r = ncols t)"

text \<open>
  The output term in the words of the specification: the sum over the classes of
  \<open>exp(logits) * (logits - predicted_logits)\<close>, averaged over the batch.
\<close>

definition spec_output_loss :: "tensor \<Rightarrow> tensor \<Rightarrow> real" where
  "spec_output_loss logits predicted_logits =
     (\<Sum>i<length (rows logits). \<Sum>j<ncols logits.
        exp (rows logits ! i ! j) * (rows logits ! i ! j - rows predicted_logits ! i ! j))
     / real (length (rows logits))"

text \<open>
  The consistency term in the words of the specification: the mean squared error of each
  reference layer but the first against the predicted layer before it, averaged within
  each pair of layers and then across the pairs.
\<close>

definition mse :: "tensor \<Rightarrow> tensor \<Rightarrow> real" where
  "mse a p =
     (\<Sum>i<length (rows a). \<Sum>j<ncols a. (rows a ! i ! j - rows p ! i ! j)\<^sup>2)
       / real (length (rows a) * ncols a)"

definition spec_consistency_loss :: "tensor list \<Rightarrow> tensor list \<Rightarrow> real" where
  "spec_consistency_loss abstractions predicted_abstractions =
     (\<Sum>i = 1..<length abstractions. mse (abstractions ! i) (predicted_abstractions ! (i - 1)))
       / real (length abstractions - 1)"

text \<open>
  Two arrays of one shape with at least one row and one column.
\<close>

definition same_shape_arrays :: "tensor \<Rightarrow> tensor \<Rightarrow> bool" where
  "same_shape_arrays a p =
     (is_array a \<and> is_array p \<and> shape a = shape p \<and> 0 < fst (shape a) \<and> 0 < snd (shape a))"

text \<open>
  Three runtimes. \<open>jax_jit\<close> is the one the repository runs in: jit compiles and the
  arrays are those of \<open>jax.numpy\<close>. \<open>jax_eager\<close> has jit disabled. \<open>methods_eager\<close>
  has jit disabled and arrays with the methods \<open>exp\<close> and \<open>square\<close>.
\<close>

definition jax_jit :: runtime where
  "jax_jit = \<lparr>jit_disabled = False, has_exp_square = False\<rparr>"

definition jax_eager :: runtime where
  "jax_eager = \<lparr>jit_disabled = True, has_exp_square = False\<rparr>"

definition methods_eager :: runtime where
  "methods_eager = \<lparr>jit_disabled = True, has_exp_square = True\<rparr>"

text \<open>
  Example inputs: an abstraction model that returns fixed sequences, a reference model
  that returns fixed logits, a gradient that is zero, and an optimiser that subtracts the
  gradient.
\<close>

definition example_apply ::
  "tensor list \<Rightarrow> tensor list \<Rightarrow> tensor \<Rightarrow> real \<Rightarrow> tensor list \<Rightarrow> tensor list \<times> tensor list \<times> tensor" where
  "example_apply A P PL ps acts = (A, P, PL)"

definition example_tx :: "real \<Rightarrow> unit \<Rightarrow> real \<Rightarrow> real \<times> unit" where
  "example_tx g os p = (p - g, ())"

definition example_state :: "tensor list \<Rightarrow> tensor list \<Rightarrow> tensor \<Rightarrow> (real, unit) TrainState" where
  "example_state A P PL =
     \<lparr>step = 0, apply_fn = example_apply A P PL, params = 0, tx = example_tx, opt_state = ()\<rparr>"

definition example_forward :: "tensor \<Rightarrow> tensor list \<Rightarrow> unit \<Rightarrow> tensor \<times> tensor list" where
  "example_forward logits acts images = (logits, acts)"

definition example_grad :: "(real \<Rightarrow> error + scalar) \<Rightarrow> real \<Rightarrow> real" where
  "example_grad f p = 0"

definition const_tensor :: "nat \<Rightarrow> nat \<Rightarrow> real \<Rightarrow> tensor" where
  "const_tensor b d v = Tensor d (replicate b (replicate d v))"

text \<open>
  Example directories: a stored model and a stored detector whose \<open>config.yaml\<close>
  points at its own directory, and a stored detector \<open>a\<close> that points at a stored
  detector \<open>b\<close>, with no weights file anywhere.
\<close>

definition self_model_files :: "(unit, unit) files" where
  "self_model_files =
     \<lparr>configs = [''run'' \<mapsto> [(''model'', ModelValue (StoredModel ''run''))]],
      weights = Map.empty\<rparr>"

definition self_detector_files :: "(unit, unit) files" where
  "self_detector_files =
     \<lparr>configs = [''run'' \<mapsto> [(''detector'', DetectorValue (StoredDetector ''run''))]],
      weights = Map.empty\<rparr>"

definition chain_files :: "(unit, unit) files" where
  "chain_files =
     \<lparr>configs = [''a'' \<mapsto> [(''detector'', DetectorValue (StoredDetector ''b''))],
                 ''b'' \<mapsto> [(''detector'', DetectorValue (OtherDetector ()))]],
      weights = Map.empty\<rparr>"

definition example_build ::
  "unit \<Rightarrow> unit \<Rightarrow> unit \<Rightarrow> log_entry list \<times> (error + (unit, unit) detector)" where
  "example_build c m save_dir = ([], Inr \<lparr>built = c, loaded = None\<rparr>)"

text \<open>
  An example run of the trainer: one training batch and one held-out batch, two epochs,
  the abstraction model of the three-layer example.
\<close>

definition example_loader :: "(unit \<times> unit \<times> unit) loader" where
  "example_loader = \<lparr>dataset_size = 2, batch_size = 2, batches = [((), (), ())]\<rparr>"

definition example_loaders ::
  "nat \<Rightarrow> (unit \<times> unit \<times> unit) loader \<times> (unit \<times> unit \<times> unit) loader" where
  "example_loaders n = (example_loader, example_loader)"

definition example_key :: "int \<Rightarrow> unit" where
  "example_key seed = ()"

definition example_split :: "unit \<Rightarrow> unit \<times> unit" where
  "example_split rng = ((), ())"

definition example_create :: "unit \<Rightarrow> config \<Rightarrow> (real, unit) TrainState" where
  "example_create rng cfg =
     example_state [const_tensor 2 4 0, const_tensor 2 4 1, const_tensor 2 4 2]
                   [const_tensor 2 4 0, const_tensor 2 4 0, const_tensor 2 4 0]
                   (const_tensor 2 10 0)"

definition example_reference :: "string \<Rightarrow> unit \<Rightarrow> tensor \<times> tensor list" where
  "example_reference p = example_forward (const_tensor 2 10 0) []"

definition example_env :: "runtime \<Rightarrow> (real, unit, unit, unit, unit, unit) env" where
  "example_env R =
     \<lparr>rt = R, get_data_loaders = example_loaders, PRNGKey = example_key,
      split = example_split, create_train_state = example_create,
      reference_forward = example_reference, value_and_grad = example_grad\<rparr>"

definition example_config :: config where
  "example_config =
     \<lparr>num_epochs = 2, cfg_batch_size = 2, learning_rate = 1 / 10, momentum = 9 / 10,
      abstract_dim = 4, model_path = ''model'', debug = False, no_clearml = False\<rparr>"

fun is_metrics_line :: "event \<Rightarrow> bool" where
  "is_metrics_line (MetricsLine _ _ _ _ _) = True"
| "is_metrics_line (Scalar _ _ _ _) = False"

text \<open>
  An example store of transform lists, and a backdoored dataset over it.
\<close>

definition example_lists :: "string list list" where
  "example_lists = [[''crop''], [''noise'']]"

definition example_backdoor_data :: "string dataset_cfg" where
  "example_backdoor_data = BackdoorData False 1 (Dataset (Some False) 0) ''trigger''"

section \<open>Properties of the loss computation\<close>

subsection \<open>Arrays of equal shape\<close>

lemma broadcast_to_same:
  assumes "is_array t"
  shows "broadcast_to (shape t) t = t"
proof -
  have rs: "(if length (rows t) = 1 then replicate (fst (shape t)) (hd (rows t)) else rows t)
      = rows t"
    by (cases "rows t") (auto simp: shape_def)
  have "map (\<lambda>r. if ncols t = 1 then replicate (snd (shape t)) (hd r) else r) (rows t) = rows t"
  proof (rule map_idI)
    fix r assume "r \<in> set (rows t)"
    then have "length r = ncols t" using assms by (simp add: is_array_def)
    then show "(if ncols t = 1 then replicate (snd (shape t)) (hd r) else r) = r"
      by (cases r) (auto simp: shape_def)
  qed
  then show ?thesis unfolding broadcast_to_def Let_def rs by (simp add: shape_def)
qed

lemma binop_same_shape:
  assumes "is_array a" "is_array b" "shape a = shape b"
  shows "binop f a b = Inr (Tensor (ncols a) (map2 (map2 f) (rows a) (rows b)))"
proof -
  have "broadcast_shape (shape a) (shape b) = shape a"
    using assms(3) by (simp add: broadcast_shape_def prod_eq_iff)
  moreover have "broadcastable (shape a) (shape b)"
    using assms(3) by (simp add: broadcastable_def)
  ultimately show ?thesis
    using broadcast_to_same[OF assms(1)] broadcast_to_same[OF assms(2)] assms(3)
    by (simp add: binop_def Let_def shape_def)
qed

lemma sum_list_map2_nth:
  "length xs = length ys \<Longrightarrow> sum_list (map2 f xs ys) = (\<Sum>i<length xs. f (xs ! i) (ys ! i))"
proof -
  assume l: "length xs = length ys"
  have "sum_list (map2 f xs ys) = (\<Sum>i = 0..<length (map2 f xs ys). map2 f xs ys ! i)"
    by (rule sum_list_sum_nth)
  also have "\<dots> = (\<Sum>i<length xs. f (xs ! i) (ys ! i))"
    using l by (auto simp: atLeast0LessThan intro!: sum.cong)
  finally show ?thesis .
qed

lemma is_array_row: "is_array t \<Longrightarrow> i < length (rows t) \<Longrightarrow> length (rows t ! i) = ncols t"
  by (simp add: is_array_def)

lemma is_array_map2:
  assumes "is_array a" "is_array b" "shape a = shape b"
  shows "is_array (Tensor (ncols a) (map2 (map2 f) (rows a) (rows b)))"
    and "shape (Tensor (ncols a) (map2 (map2 f) (rows a) (rows b))) = shape a"
proof -
  have len: "length (rows a) = length (rows b)" and nc: "ncols a = ncols b"
    using assms(3) by (simp_all add: shape_def)
  show "shape (Tensor (ncols a) (map2 (map2 f) (rows a) (rows b))) = shape a"
    using len by (simp add: shape_def)
  show "is_array (Tensor (ncols a) (map2 (map2 f) (rows a) (rows b)))"
    unfolding is_array_def
  proof
    fix r assume "r \<in> set (rows (Tensor (ncols a) (map2 (map2 f) (rows a) (rows b))))"
    then obtain i where i: "i < length (rows a)" "r = map2 f (rows a ! i) (rows b ! i)"
      using len by (auto simp: in_set_conv_nth)
    then show "length r = ncols (Tensor (ncols a) (map2 (map2 f) (rows a) (rows b)))"
      using assms(1,2) len nc by (simp add: is_array_row)
  qed
qed

lemma is_array_const_tensor: "is_array (const_tensor b d v)"
  by (simp add: is_array_def const_tensor_def)

lemma output_loss_spec:
  assumes "has_exp_square R" "is_array l" "is_array p" "shape l = shape p" "rows l \<noteq> []"
  shows "output_loss R l p = Inr (Num (spec_output_loss l p))"
proof -
  have len: "length (rows l) = length (rows p)" and nc: "ncols l = ncols p"
    using assms(4) by (simp_all add: shape_def)
  define e where "e = Tensor (ncols l) (map (map exp) (rows l))"
  have te: "texp R l = Inr e" using assms(1) by (simp add: texp_def e_def)
  have el: "is_array e" "shape e = shape l"
    using assms(2) by (auto simp: is_array_def e_def shape_def)
  define d where "d = Tensor (ncols l) (map2 (map2 (-)) (rows l) (rows p))"
  have bd: "binop (-) l p = Inr d"
    using assms(2,3,4) by (simp add: binop_same_shape d_def)
  have darr: "is_array d" and dshape: "shape d = shape l"
    using is_array_map2[OF assms(2,3,4), of "(-)"] by (simp_all add: d_def)
  define w where "w = Tensor (ncols e) (map2 (map2 (*)) (rows e) (rows d))"
  have bm: "binop (*) e d = Inr w"
    using el darr dshape by (simp add: binop_same_shape w_def)
  have lw: "length (rows w) = length (rows l)" using len by (simp add: w_def e_def d_def)
  have row: "sum_list (rows w ! i)
      = (\<Sum>j<ncols l. exp (rows l ! i ! j) * (rows l ! i ! j - rows p ! i ! j))"
    if i: "i < length (rows l)" for i
  proof -
    have rl: "length (rows l ! i) = ncols l" "length (rows p ! i) = ncols l"
      using i assms(2,3) len nc by (simp_all add: is_array_row)
    have "rows w ! i = map2 (*) (map exp (rows l ! i)) (map2 (-) (rows l ! i) (rows p ! i))"
      using i len by (simp add: w_def e_def d_def)
    also have "sum_list \<dots>
        = (\<Sum>j<ncols l. exp (rows l ! i ! j) * (rows l ! i ! j - rows p ! i ! j))"
      using rl by (subst sum_list_map2_nth) (auto intro!: sum.cong)
    finally show ?thesis .
  qed
  have "sum_list (tsum_last w) = (\<Sum>i = 0..<length (tsum_last w). tsum_last w ! i)"
    by (rule sum_list_sum_nth)
  also have "\<dots> = (\<Sum>i<length (rows l). \<Sum>j<ncols l.
        exp (rows l ! i ! j) * (rows l ! i ! j - rows p ! i ! j))"
    using lw row by (auto simp: tsum_last_def atLeast0LessThan intro!: sum.cong)
  finally have s: "sum_list (tsum_last w) = (\<Sum>i<length (rows l). \<Sum>j<ncols l.
        exp (rows l ! i ! j) * (rows l ! i ! j - rows p ! i ! j))" .
  have ne: "tsum_last w \<noteq> []" using lw assms(5) by (auto simp: tsum_last_def)
  have lt: "length (tsum_last w) = length (rows l)" using lw by (simp add: tsum_last_def)
  have "output_loss R l p = Inr (vmean (tsum_last w))"
    using te bd bm by (simp add: output_loss_def)
  then show ?thesis
    using s ne lt by (simp add: vmean_def spec_output_loss_def)
qed

subsection \<open>Calls that return and calls that raise\<close>

lemma apply_model_jit:
  "\<not> jit_disabled R \<Longrightarrow> apply_model R D state batch forward_fn = Inl TypeError"
  by (simp add: apply_model_def)

lemma loss_fn_Inr:
  assumes "loss_fn R apply logits acts ps = Inr (l, (ol, cl))"
    and "apply ps acts = (A, P, PL)"
  shows "length A = length P \<and> A \<noteq> [] \<and> shape (hd P) = shape (hd A)
       \<and> shape logits = (fst (shape (hd A)), 10) \<and> shape PL = shape logits
       \<and> output_loss R logits PL = Inr ol
       \<and> (\<exists>s. consistency_sum R (Num 0) (zip (tl A) P) = Inr s
              \<and> cl = scalar_div s (length P))
       \<and> l = scalar_add ol cl"
  using assms
  by (auto simp: loss_fn_def Let_def split: if_splits list.splits prod.splits sum.splits)

lemma apply_model_Inr:
  assumes "apply_model R D state (images, labels, backdoored) forward_fn = Inr (grads, ms)"
    and "forward_fn images = (logits, acts)"
  shows "jit_disabled R
       \<and> (\<exists>l ol cl. loss_fn R (apply_fn state) logits acts (params state) = Inr (l, (ol, cl))
       \<and> ms = [(''loss'', l), (''output_loss'', ol), (''consistency_loss'', cl)]
       \<and> grads = D (\<lambda>ps. map_sum id fst (loss_fn R (apply_fn state) logits acts ps))
                    (params state))"
  using assms
  by (auto simp: apply_model_def split: sum.splits prod.splits if_splits)

lemma output_loss_Inr: "output_loss R l p = Inr x \<Longrightarrow> has_exp_square R"
  by (auto simp: output_loss_def texp_def split: if_splits)

text \<open>
  On the arrays of \<open>jax.numpy\<close> the first array method that \<open>loss_fn\<close> calls
  raises \<open>AttributeError\<close>, and under jit the call raises before the body: in the
  runtime of the repository \<open>apply_model\<close> returns on no input.
\<close>

lemma loss_fn_attribute_error:
  assumes "\<not> has_exp_square R"
  shows "\<exists>e. loss_fn R apply logits acts ps = Inl e"
  using assms
  by (auto simp: loss_fn_def output_loss_def texp_def split: prod.splits list.splits)

lemma apply_model_never_returns_on_jax_arrays:
  assumes "\<not> jit_disabled R \<or> \<not> has_exp_square R"
  shows "\<exists>e. apply_model R D state batch forward_fn = Inl e"
proof (cases "jit_disabled R")
  case False
  then show ?thesis by (simp add: apply_model_jit)
next
  case True
  with assms have n: "\<not> has_exp_square R" by simp
  obtain images labels backdoored where b: "batch = (images, labels, backdoored)"
    by (cases batch) auto
  obtain logits acts where f: "forward_fn images = (logits, acts)"
    by (cases "forward_fn images") auto
  from loss_fn_attribute_error[OF n, of "apply_fn state" logits acts "params state"]
  obtain e where
    "loss_fn R (apply_fn state) logits acts (params state) = Inl e" by blast
  then show ?thesis using True b f by (simp add: apply_model_def)
qed

text \<open>
  Where \<open>apply_model\<close> does return, on a batch of at least one example, its metrics
  are the output term of the specification, the consistency term, and their sum.
\<close>

lemma apply_model_returns_claimed_loss:
  assumes "apply_model R D state (images, labels, backdoored) forward_fn = Inr (grads, ms)"
    and "forward_fn images = (logits, activations)"
    and "apply_fn state (params state) activations
           = (abstractions, predicted_abstractions, predicted_logits)"
    and "is_array logits" and "is_array predicted_logits" and "rows logits \<noteq> []"
  shows "\<exists>cl. ms = [(''loss'', scalar_add (Num (spec_output_loss logits predicted_logits)) cl),
                    (''output_loss'', Num (spec_output_loss logits predicted_logits)),
                    (''consistency_loss'', cl)]
       \<and> grads = D (\<lambda>ps. map_sum id fst (loss_fn R (apply_fn state) logits activations ps))
                   (params state)"
proof -
  from apply_model_Inr[OF assms(1,2)] obtain l ol cl where
    lf: "loss_fn R (apply_fn state) logits activations (params state) = Inr (l, (ol, cl))"
    and ms: "ms = [(''loss'', l), (''output_loss'', ol), (''consistency_loss'', cl)]"
    and g: "grads = D (\<lambda>ps. map_sum id fst (loss_fn R (apply_fn state) logits activations ps))
                   (params state)"
    by blast
  from loss_fn_Inr[OF lf assms(3)] have
    sh: "shape predicted_logits = shape logits"
    and ol: "output_loss R logits predicted_logits = Inr ol" and l: "l = scalar_add ol cl"
    by simp_all
  have "output_loss R logits predicted_logits
      = Inr (Num (spec_output_loss logits predicted_logits))"
    using assms(4,5,6) sh output_loss_Inr[OF ol] by (simp add: output_loss_spec)
  with ol have "ol = Num (spec_output_loss logits predicted_logits)" by simp
  with ms g l show ?thesis by simp
qed

subsection \<open>Example calls\<close>

lemmas eval_defs = example_apply_def Let_def
      loss_fn_def const_tensor_def shape_def eval_nat_numeral output_loss_def binop_def
      broadcastable_def broadcast_shape_def broadcast_to_def texp_def tsum_last_def vmean_def
      tmean_def tsquare_def

lemma example_three_layers_loss_fn:
  "loss_fn methods_eager
      (example_apply [const_tensor 2 4 0, const_tensor 2 4 1, const_tensor 2 4 2]
                    [const_tensor 2 4 0, const_tensor 2 4 0, const_tensor 2 4 0]
                    (const_tensor 2 10 0)) (const_tensor 2 10 0) [] 0
   = Inr (Num (5 / 3), (Num 0, Num (5 / 3)))"
  by (simp add: eval_defs methods_eager_def)

lemma example_three_layers:
  "apply_model methods_eager example_grad
     (example_state [const_tensor 2 4 0, const_tensor 2 4 1, const_tensor 2 4 2]
                    [const_tensor 2 4 0, const_tensor 2 4 0, const_tensor 2 4 0]
                    (const_tensor 2 10 0))
     ((), (), ()) (example_forward (const_tensor 2 10 0) [])
   = Inr (0, [(''loss'', Num (5 / 3)), (''output_loss'', Num 0),
              (''consistency_loss'', Num (5 / 3))])"
  using example_three_layers_loss_fn
  by (simp add: apply_model_def example_forward_def example_state_def example_grad_def
      methods_eager_def)

lemma example_three_layers_jax:
  "apply_model jax_eager example_grad
     (example_state [const_tensor 2 4 0, const_tensor 2 4 1, const_tensor 2 4 2]
                    [const_tensor 2 4 0, const_tensor 2 4 0, const_tensor 2 4 0]
                    (const_tensor 2 10 0))
     ((), (), ()) (example_forward (const_tensor 2 10 0) [])
   = Inl AttributeError"
  by (simp add: apply_model_def example_forward_def example_state_def eval_defs jax_eager_def)

lemma example_three_layers_spec:
  "spec_consistency_loss [const_tensor 2 4 0, const_tensor 2 4 1, const_tensor 2 4 2]
                    [const_tensor 2 4 0, const_tensor 2 4 0, const_tensor 2 4 0] = 5 / 2"
  by (simp add: spec_consistency_loss_def mse_def const_tensor_def eval_nat_numeral
      lessThan_Suc atLeastLessThanSuc)

lemma example_dominated_loss_fn:
  "loss_fn methods_eager
      (example_apply [const_tensor 1 1 0] [const_tensor 1 1 0] (const_tensor 1 10 (- 1)))
      (const_tensor 1 10 0) [] 0 = Inr (Num 10, (Num 10, Num 0))"
  by (simp add: eval_defs methods_eager_def)

lemma example_dominated_spec:
  "spec_output_loss (const_tensor 1 10 0) (const_tensor 1 10 (- 1)) = 10"
  by (simp add: spec_output_loss_def const_tensor_def eval_nat_numeral lessThan_Suc)

lemma example_negative_loss_fn:
  "loss_fn methods_eager
      (example_apply [const_tensor 1 1 0] [const_tensor 1 1 0] (const_tensor 1 10 1))
      (const_tensor 1 10 0) [] 0 = Inr (Num (- 10), (Num (- 10), Num 0))"
  by (simp add: eval_defs methods_eager_def)

text \<open>
  A batch of no examples passes the assertions; its output term is the mean of an empty
  array.
\<close>

lemma example_empty_batch:
  "apply_model methods_eager example_grad
     (example_state [const_tensor 0 1 0] [const_tensor 0 1 0] (const_tensor 0 10 0))
     ((), (), ()) (example_forward (const_tensor 0 10 0) [])
   = Inr (0, [(''loss'', NaN), (''output_loss'', NaN), (''consistency_loss'', Num 0)])"
  by (simp add: apply_model_def example_forward_def example_state_def example_grad_def
      methods_eager_def eval_defs)

subsection \<open>The consistency term on layers of equal shape\<close>

lemma sum_list_map2_nth_min:
  "sum_list (map2 f xs ys) = (\<Sum>i<min (length xs) (length ys). f (xs ! i) (ys ! i))"
proof -
  have "sum_list (map2 f xs ys) = (\<Sum>i = 0..<length (map2 f xs ys). map2 f xs ys ! i)"
    by (rule sum_list_sum_nth)
  also have "\<dots> = (\<Sum>i<min (length xs) (length ys). f (xs ! i) (ys ! i))"
    by (auto simp: atLeast0LessThan intro!: sum.cong)
  finally show ?thesis .
qed

lemma sum_list_concat_rows: "sum_list (concat t) = sum_list (map sum_list t)"
  for t :: "real list list"
  by (induction t) auto

lemma length_concat_rows:
  "\<forall>r \<in> set t. length r = c \<Longrightarrow> length (concat t) = length t * c"
  by (induction t) auto

lemma tmean_tsquare_diff:
  assumes "has_exp_square R" and "same_shape_arrays a p"
  shows "\<exists>d sq. binop (-) a p = Inr d \<and> tsquare R d = Inr sq \<and> tmean sq = Num (mse a p)"
proof -
  have arr: "is_array a" "is_array p" and sh: "shape a = shape p"
    and pos0: "0 < fst (shape a)" and pos1: "0 < snd (shape a)"
    using assms(2) unfolding same_shape_arrays_def by blast+
  have pos: "0 < length (rows a)" "0 < ncols a" using pos0 pos1 by (simp_all add: shape_def)
  have len: "length (rows a) = length (rows p)" and nc: "ncols a = ncols p"
    using sh by (simp_all add: shape_def)
  define d where "d = Tensor (ncols a) (map2 (map2 (-)) (rows a) (rows p))"
  have bd: "binop (-) a p = Inr d" using arr sh by (simp add: binop_same_shape d_def)
  define w where "w = map (map (\<lambda>x. x * x)) (rows d)"
  have ts: "tsquare R d = Inr (Tensor (ncols d) w)"
    using assms(1) by (simp add: tsquare_def w_def)
  have rowlen: "\<And>i. i < length (rows a) \<Longrightarrow> length (rows a ! i) = ncols a"
    "\<And>i. i < length (rows a) \<Longrightarrow> length (rows p ! i) = ncols a"
    using arr len nc by (simp_all add: is_array_row)
  have lw: "length w = length (rows a)" using len by (simp add: w_def d_def)
  have wi: "w ! i = map (\<lambda>x. x * x) (map2 (-) (rows a ! i) (rows p ! i))"
    if "i < length (rows a)" for i
    using that len by (simp add: w_def d_def)
  have rws: "\<forall>r \<in> set w. length r = ncols a"
  proof
    fix r assume "r \<in> set w"
    then obtain i where "i < length (rows a)" "r = w ! i"
      using lw by (auto simp: in_set_conv_nth)
    then show "length r = ncols a" using wi[of i] rowlen[of i] by simp
  qed
  have lc: "length (concat w) = length (rows a) * ncols a"
    using length_concat_rows[OF rws] lw by simp
  have "0 < length (concat w)" using lc pos by simp
  then have ne: "concat w \<noteq> []" by auto
  have row: "sum_list (w ! i) = (\<Sum>j<ncols a. (rows a ! i ! j - rows p ! i ! j)\<^sup>2)"
    if i: "i < length (rows a)" for i
  proof -
    have "w ! i = map2 (\<lambda>x y. (x - y) * (x - y)) (rows a ! i) (rows p ! i)"
      using wi[OF i] by (simp add: map_zip_map2 case_prod_unfold zip_map_fst_snd)
    then have "sum_list (w ! i)
        = (\<Sum>j<min (length (rows a ! i)) (length (rows p ! i)).
            (rows a ! i ! j - rows p ! i ! j) * (rows a ! i ! j - rows p ! i ! j))"
      by (simp only: sum_list_map2_nth_min)
    then show ?thesis using rowlen[OF i] by (simp add: power2_eq_square)
  qed
  have "sum_list (concat w) = sum_list (map sum_list w)" by (rule sum_list_concat_rows)
  also have "\<dots> = (\<Sum>i = 0..<length (map sum_list w). map sum_list w ! i)"
    by (rule sum_list_sum_nth)
  also have "\<dots> = (\<Sum>i<length (rows a). \<Sum>j<ncols a. (rows a ! i ! j - rows p ! i ! j)\<^sup>2)"
    using lw row by (auto simp: atLeast0LessThan intro!: sum.cong)
  finally have s: "sum_list (concat w)
      = (\<Sum>i<length (rows a). \<Sum>j<ncols a. (rows a ! i ! j - rows p ! i ! j)\<^sup>2)" .
  have "tmean (Tensor (ncols d) w) = Num (mse a p)"
    using s ne lc by (simp add: tmean_def vmean_def mse_def)
  with bd ts show ?thesis by blast
qed

lemma consistency_sum_spec:
  assumes "has_exp_square R" and "\<forall>(a, p) \<in> set ps. same_shape_arrays a p"
  shows "consistency_sum R (Num acc) ps
           = Inr (Num (acc + sum_list (map2 mse (map fst ps) (map snd ps))))"
  using assms(2)
proof (induction ps arbitrary: acc)
  case Nil
  show ?case by simp
next
  case (Cons x ps)
  obtain a p where x: "x = (a, p)" by (cases x)
  have g: "same_shape_arrays a p" using Cons.prems x by simp
  from tmean_tsquare_diff[OF assms(1) g] obtain d sq where
    "binop (-) a p = Inr d" "tsquare R d = Inr sq" "tmean sq = Num (mse a p)" by blast
  then have "consistency_sum R (Num acc) (x # ps) = consistency_sum R (Num (acc + mse a p)) ps"
    using x by simp
  also have "\<dots> = Inr (Num (acc + mse a p + sum_list (map2 mse (map fst ps) (map snd ps))))"
    using Cons.prems by (intro Cons.IH) simp
  finally show ?case using x by (simp add: add.assoc)
qed

text \<open>
  On every call that returns and whose layer pairs have equal shapes, the reported
  \<open>consistency_loss\<close> is the sum of the \<open>n - 1\<close> mean squared errors divided by
  the number \<open>n\<close> of layers.
\<close>

lemma consistency_loss_value:
  assumes "apply_model R D state (images, labels, backdoored) forward_fn = Inr (grads, ms)"
    and "forward_fn images = (logits, activations)"
    and "apply_fn state (params state) activations
           = (abstractions, predicted_abstractions, predicted_logits)"
    and "\<forall>i. 1 \<le> i \<and> i < length abstractions \<longrightarrow>
           same_shape_arrays (abstractions ! i) (predicted_abstractions ! (i - 1))"
  shows "map_of ms ''consistency_loss''
     = Some (Num ((\<Sum>i = 1..<length abstractions.
                mse (abstractions ! i) (predicted_abstractions ! (i - 1)))
             / real (length abstractions)))"
proof -
  let ?A = abstractions and ?P = predicted_abstractions
  from apply_model_Inr[OF assms(1,2)] obtain l ol cl where
    lf: "loss_fn R (apply_fn state) logits activations (params state) = Inr (l, (ol, cl))"
    and ms: "ms = [(''loss'', l), (''output_loss'', ol), (''consistency_loss'', cl)]"
    by blast
  from loss_fn_Inr[OF lf assms(3)] obtain s where
    len: "length ?A = length ?P" and ne: "?A \<noteq> []"
    and ol: "output_loss R logits predicted_logits = Inr ol"
    and cs: "consistency_sum R (Num 0) (zip (tl ?A) ?P) = Inr s"
    and cl: "cl = scalar_div s (length ?P)"
    by blast
  have m: "has_exp_square R" using ol by (rule output_loss_Inr)
  have lz: "length (zip (tl ?A) ?P) = length ?A - 1" using len by simp
  have good: "\<forall>(a, p) \<in> set (zip (tl ?A) ?P). same_shape_arrays a p"
  proof -
    have "same_shape_arrays a p" if "(a, p) \<in> set (zip (tl ?A) ?P)" for a p
    proof -
      from that obtain i where i: "i < length ?A - 1" "a = tl ?A ! i" "p = ?P ! i"
        using lz by (auto simp: in_set_conv_nth)
      then have "a = ?A ! Suc i" by (simp add: nth_tl)
      with i assms(4) show ?thesis by (auto dest: spec[of _ "Suc i"])
    qed
    then show ?thesis by auto
  qed
  have "map fst (zip (tl ?A) ?P) = tl ?A" "map snd (zip (tl ?A) ?P) = butlast ?P"
    using len ne by (simp_all add: map_fst_zip_take map_snd_zip_take butlast_conv_take)
  then have "consistency_sum R (Num 0) (zip (tl ?A) ?P)
      = Inr (Num (sum_list (map2 mse (tl ?A) (butlast ?P))))"
    using consistency_sum_spec[OF m good, of 0] by simp
  with cs have s: "s = Num (sum_list (map2 mse (tl ?A) (butlast ?P)))" by simp
  have "sum_list (map2 mse (tl ?A) (butlast ?P))
      = (\<Sum>i<length ?A - 1. mse (tl ?A ! i) (butlast ?P ! i))"
    using len by (simp add: sum_list_map2_nth_min)
  also have "\<dots> = (\<Sum>i<length ?A - 1. mse (?A ! Suc i) (?P ! i))"
    using len by (auto simp: nth_tl nth_butlast intro!: sum.cong)
  also have "\<dots> = (\<Sum>i = 0..<length ?A - 1. mse (?A ! Suc i) (?P ! (Suc i - 1)))"
    by (simp add: atLeast0LessThan)
  also have "\<dots> = (\<Sum>i = Suc 0..<Suc (length ?A - 1). mse (?A ! i) (?P ! (i - 1)))"
    by (simp only: sum.atLeast_Suc_lessThan_Suc_shift o_def)
  also have "Suc (length ?A - 1) = length ?A" using ne by (cases ?A) auto
  finally have "s = Num (\<Sum>i = 1..<length ?A. mse (?A ! i) (?P ! (i - 1)))"
    using s by simp
  with cl len ms show ?thesis by simp
qed

subsection \<open>The claims about the loss\<close>

text \<open>
  C1: the reported \<open>consistency_loss\<close> is the average, over the layer pairs, of the
  mean squared errors between reference layer \<open>i\<close> and predicted layer \<open>i - 1\<close>;
  for three reference layers it is the mean of two terms. On three layers of two examples
  and dimension four, with squared errors 1 and 4, the code reports \<open>5 / 3\<close> where it
  returns: it divides the sum of the two terms by the number of predicted layers, three.
  The mean of the two terms is \<open>5 / 2\<close>. On the arrays of \<open>jax.numpy\<close> the same call
  raises \<open>AttributeError\<close>, and under jit \<open>TypeError\<close>, so no runtime reports the
  mean.
\<close>

theorem consistency_loss_divides_by_layer_count:
  "apply_model methods_eager example_grad
     (example_state [const_tensor 2 4 0, const_tensor 2 4 1, const_tensor 2 4 2]
                    [const_tensor 2 4 0, const_tensor 2 4 0, const_tensor 2 4 0]
                    (const_tensor 2 10 0))
     ((), (), ()) (example_forward (const_tensor 2 10 0) [])
   = Inr (0, [(''loss'', Num (5 / 3)), (''output_loss'', Num 0),
              (''consistency_loss'', Num (5 / 3))])
   \<and> spec_consistency_loss [const_tensor 2 4 0, const_tensor 2 4 1, const_tensor 2 4 2]
                    [const_tensor 2 4 0, const_tensor 2 4 0, const_tensor 2 4 0] = 5 / 2
   \<and> apply_model jax_eager example_grad
     (example_state [const_tensor 2 4 0, const_tensor 2 4 1, const_tensor 2 4 2]
                    [const_tensor 2 4 0, const_tensor 2 4 0, const_tensor 2 4 0]
                    (const_tensor 2 10 0))
     ((), (), ()) (example_forward (const_tensor 2 10 0) [])
   = Inl AttributeError
   \<and> apply_model jax_jit example_grad
     (example_state [const_tensor 2 4 0, const_tensor 2 4 1, const_tensor 2 4 2]
                    [const_tensor 2 4 0, const_tensor 2 4 0, const_tensor 2 4 0]
                    (const_tensor 2 10 0))
     ((), (), ()) (example_forward (const_tensor 2 10 0) [])
   = Inl TypeError"
  using example_three_layers example_three_layers_spec example_three_layers_jax
  by (simp add: apply_model_jit jax_jit_def)

text \<open>
  C2: the loss that \<open>apply_model\<close> differentiates is \<open>output_loss + consistency_loss\<close>
  without weights, and \<open>output_loss\<close> is the sum over the classes of
  \<open>exp(logits) * (logits - predicted_logits)\<close> averaged over the batch. On a batch with
  logits 0 and predicted logits \<open>- 1\<close> the call raises \<open>TypeError\<close> in the runtime of
  the repository, for the plain function passed to the compiled \<open>apply_model\<close>, and
  \<open>AttributeError\<close> with jit disabled, at \<open>logits.exp()\<close>: no loss is differentiated.
  With an array class that has the methods the code computes the formula of the claim,
  10 here.
\<close>

theorem apply_model_raises_before_the_loss:
  "apply_model jax_jit example_grad
     (example_state [const_tensor 1 1 0] [const_tensor 1 1 0] (const_tensor 1 10 (- 1)))
     ((), (), ()) (example_forward (const_tensor 1 10 0) [])
   = Inl TypeError
   \<and> apply_model jax_eager example_grad
     (example_state [const_tensor 1 1 0] [const_tensor 1 1 0] (const_tensor 1 10 (- 1)))
     ((), (), ()) (example_forward (const_tensor 1 10 0) [])
   = Inl AttributeError
   \<and> apply_model methods_eager example_grad
     (example_state [const_tensor 1 1 0] [const_tensor 1 1 0] (const_tensor 1 10 (- 1)))
     ((), (), ()) (example_forward (const_tensor 1 10 0) [])
   = Inr (0, [(''loss'', Num 10), (''output_loss'', Num 10), (''consistency_loss'', Num 0)])
   \<and> spec_output_loss (const_tensor 1 10 0) (const_tensor 1 10 (- 1)) = 10"
proof -
  have 1: "apply_model jax_jit example_grad
     (example_state [const_tensor 1 1 0] [const_tensor 1 1 0] (const_tensor 1 10 (- 1)))
     ((), (), ()) (example_forward (const_tensor 1 10 0) []) = Inl TypeError"
    by (simp add: apply_model_jit jax_jit_def)
  have 2: "apply_model jax_eager example_grad
     (example_state [const_tensor 1 1 0] [const_tensor 1 1 0] (const_tensor 1 10 (- 1)))
     ((), (), ()) (example_forward (const_tensor 1 10 0) []) = Inl AttributeError"
    by (simp add: apply_model_def example_forward_def example_state_def eval_defs jax_eager_def)
  have 3: "apply_model methods_eager example_grad
     (example_state [const_tensor 1 1 0] [const_tensor 1 1 0] (const_tensor 1 10 (- 1)))
     ((), (), ()) (example_forward (const_tensor 1 10 0) [])
   = Inr (0, [(''loss'', Num 10), (''output_loss'', Num 10), (''consistency_loss'', Num 0)])"
    using example_dominated_loss_fn
    by (simp add: apply_model_def example_forward_def example_state_def example_grad_def
        methods_eager_def)
  from 1 2 3 example_dominated_spec show ?thesis by simp
qed

text \<open>
  C8: the \<open>output_loss\<close> in the metrics of \<open>apply_model\<close> is a non-negative scalar
  for all logits. With reference logits 0 and predicted logits 1 in each of ten classes
  the call raises \<open>TypeError\<close> in the runtime of the repository and \<open>AttributeError\<close>
  with jit disabled, and returns no metrics; with an array class that has the methods it
  returns \<open>- 10\<close>.
\<close>

theorem apply_model_returns_no_output_loss:
  "apply_model jax_jit example_grad
     (example_state [const_tensor 1 1 0] [const_tensor 1 1 0] (const_tensor 1 10 1))
     ((), (), ()) (example_forward (const_tensor 1 10 0) [])
   = Inl TypeError
   \<and> apply_model jax_eager example_grad
     (example_state [const_tensor 1 1 0] [const_tensor 1 1 0] (const_tensor 1 10 1))
     ((), (), ()) (example_forward (const_tensor 1 10 0) [])
   = Inl AttributeError
   \<and> apply_model methods_eager example_grad
     (example_state [const_tensor 1 1 0] [const_tensor 1 1 0] (const_tensor 1 10 1))
     ((), (), ()) (example_forward (const_tensor 1 10 0) [])
   = Inr (0, [(''loss'', Num (- 10)), (''output_loss'', Num (- 10)),
              (''consistency_loss'', Num 0)])"
proof -
  have 1: "apply_model jax_jit example_grad
     (example_state [const_tensor 1 1 0] [const_tensor 1 1 0] (const_tensor 1 10 1))
     ((), (), ()) (example_forward (const_tensor 1 10 0) []) = Inl TypeError"
    by (simp add: apply_model_jit jax_jit_def)
  have 2: "apply_model jax_eager example_grad
     (example_state [const_tensor 1 1 0] [const_tensor 1 1 0] (const_tensor 1 10 1))
     ((), (), ()) (example_forward (const_tensor 1 10 0) []) = Inl AttributeError"
    by (simp add: apply_model_def example_forward_def example_state_def eval_defs jax_eager_def)
  have 3: "apply_model methods_eager example_grad
     (example_state [const_tensor 1 1 0] [const_tensor 1 1 0] (const_tensor 1 10 1))
     ((), (), ()) (example_forward (const_tensor 1 10 0) [])
   = Inr (0, [(''loss'', Num (- 10)), (''output_loss'', Num (- 10)),
              (''consistency_loss'', Num 0)])"
    using example_negative_loss_fn
    by (simp add: apply_model_def example_forward_def example_state_def example_grad_def
        methods_eager_def)
  from 1 2 3 show ?thesis by simp
qed

subsection \<open>The assertions\<close>

text \<open>
  When the body of \<open>apply_model\<close> runs and the abstraction sequence is not empty,
  sequences of different lengths, and logits or predicted logits whose shape is not
  \<open>(b, 10)\<close> with \<open>b\<close> the number of rows of the first abstraction, raise an assertion
  failure, and no gradient is computed.
\<close>

lemma apply_model_assertions:
  assumes "jit_disabled R"
    and "forward_fn images = (logits, activations)"
    and "apply_fn state (params state) activations
           = (abstractions, predicted_abstractions, predicted_logits)"
    and "abstractions \<noteq> []"
    and "length abstractions \<noteq> length predicted_abstractions
       \<or> \<not> (shape logits = (fst (shape (hd abstractions)), 10)
            \<and> shape predicted_logits = shape logits)"
  shows "apply_model R D state (images, labels, backdoored) forward_fn = Inl AssertionError"
  using assms
  by (auto simp: apply_model_def loss_fn_def split: list.splits prod.splits)

text \<open>
  C6: violating the length precondition or the shape precondition raises an assertion
  failure before any gradient is computed. In the runtime of the repository both
  violations raise \<open>TypeError\<close> instead: jit rejects the plain function \<open>forward_fn\<close>
  before the body, and with it the assertions, runs. With jit disabled both raise the
  assertion failure.
\<close>

theorem apply_model_jit_precedes_assertions:
  "apply_model jax_jit example_grad
     (example_state [const_tensor 1 1 0] [const_tensor 1 1 0] (const_tensor 1 9 0))
     ((), (), ()) (example_forward (const_tensor 1 10 0) []) = Inl TypeError
   \<and> apply_model jax_jit example_grad
     (example_state [const_tensor 1 1 0] [] (const_tensor 1 10 0))
     ((), (), ()) (example_forward (const_tensor 1 10 0) []) = Inl TypeError
   \<and> apply_model jax_eager example_grad
     (example_state [const_tensor 1 1 0] [const_tensor 1 1 0] (const_tensor 1 9 0))
     ((), (), ()) (example_forward (const_tensor 1 10 0) []) = Inl AssertionError
   \<and> apply_model jax_eager example_grad
     (example_state [const_tensor 1 1 0] [] (const_tensor 1 10 0))
     ((), (), ()) (example_forward (const_tensor 1 10 0) []) = Inl AssertionError"
proof -
  let ?a = "const_tensor 1 1 0"
  let ?L = "const_tensor 1 10 0"
  let ?M = "const_tensor 1 9 0"
  have j: "jit_disabled jax_eager" by (simp add: jax_eager_def)
  have f: "example_forward ?L [] () = (?L, [])"
    by (simp add: example_forward_def)
  have a1: "apply_fn (example_state [?a] [] ?L) (params (example_state [?a] [] ?L)) []
      = ([?a], [], ?L)"
    by (simp add: example_state_def example_apply_def)
  have a2: "apply_fn (example_state [?a] [?a] ?M) (params (example_state [?a] [?a] ?M)) []
      = ([?a], [?a], ?M)"
    by (simp add: example_state_def example_apply_def)
  have n: "[?a] \<noteq> []" by simp
  have v1: "length [?a] \<noteq> length ([] :: tensor list)
       \<or> \<not> (shape ?L = (fst (shape (hd [?a])), 10) \<and> shape ?L = shape ?L)" by simp
  have v2: "length [?a] \<noteq> length [?a]
       \<or> \<not> (shape ?L = (fst (shape (hd [?a])), 10) \<and> shape ?M = shape ?L)"
    by (simp add: shape_def const_tensor_def)
  have r1: "apply_model jax_eager example_grad (example_state [?a] [] ?L) ((), (), ())
      (example_forward ?L []) = Inl AssertionError"
    by (rule apply_model_assertions [where images = "()" and forward_fn = "example_forward ?L []",
         OF j f a1 n v1])
  have r2: "apply_model jax_eager example_grad (example_state [?a] [?a] ?M) ((), (), ())
      (example_forward ?L []) = Inl AssertionError"
    by (rule apply_model_assertions [where images = "()" and forward_fn = "example_forward ?L []",
         OF j f a2 n v2])
  from r1 r2 show ?thesis by (simp add: apply_model_jit jax_jit_def)
qed

section \<open>Properties of stored components\<close>

lemma build_model_self_reference:
  assumes "configs F p = Some cfg" and "map_of cfg ''model'' = Some (ModelValue (StoredModel p))"
  shows "build_model n F (StoredModel p)
           = (replicate n (LoadingConfig (Some ''model'') p), Inl RecursionError)"
proof (induction n)
  case 0
  show ?case by simp
next
  case (Suc n)
  have "load_config F p (Some ''model'') ModelConfig
          = ([LoadingConfig (Some ''model'') p], Inr (ModelValue (StoredModel p)))"
    using assms by (simp add: load_config_def)
  with Suc show ?case by simp
qed

lemma build_self_reference:
  assumes "configs F p = Some cfg"
    and "map_of cfg ''detector'' = Some (DetectorValue (StoredDetector p))"
  shows "build (Suc n) F B (StoredDetector p) m save_dir
           = ([LoadingConfig (Some ''detector'') p], Inl RuntimeError)"
  using assms by (simp add: load_config_def)

text \<open>
  C3: a stored detector and a stored model whose configuration on disk points at its own
  path fail fast with a self-reference error. The detector does, at call depth one. The
  model has no such check: whatever call depth \<open>n\<close> is available, \<open>build_model\<close> loads
  the same configuration \<open>n\<close> times and ends in \<open>RecursionError\<close>.
\<close>

theorem stored_model_self_reference_recurses:
  "build_model n self_model_files (StoredModel ''run'')
     = (replicate n (LoadingConfig (Some ''model'') ''run''), Inl RecursionError)
   \<and> build (Suc n) self_detector_files example_build (StoredDetector ''run'') () ()
     = ([LoadingConfig (Some ''detector'') ''run''], Inl RuntimeError)"
proof -
  have "build_model n self_model_files (StoredModel ''run'')
     = (replicate n (LoadingConfig (Some ''model'') ''run''), Inl RecursionError)"
    by (rule build_model_self_reference [where cfg = "[(''model'', ModelValue (StoredModel ''run''))]"])
       (simp_all add: self_model_files_def)
  moreover have "build (Suc n) self_detector_files example_build (StoredDetector ''run'') () ()
     = ([LoadingConfig (Some ''detector'') ''run''], Inl RuntimeError)"
    by (rule build_self_reference
         [where cfg = "[(''detector'', DetectorValue (StoredDetector ''run''))]"])
       (simp_all add: self_detector_files_def)
  ultimately show ?thesis by simp
qed

lemma chain_build:
  "build 3 chain_files example_build (StoredDetector ''a'') () ()
     = ([LoadingConfig (Some ''detector'') ''a'', LoadingConfig (Some ''detector'') ''b'',
         MissingWeights ''b'', MissingWeights ''a''], Inr \<lparr>built = (), loaded = None\<rparr>)"
  by (simp add: eval_nat_numeral chain_files_def load_config_def load_weights_def
      example_build_def)

text \<open>
  C4, as stated: a stored detector without a weights file builds with exactly one warning.
  When \<open>a\<close> points at the stored detector \<open>b\<close> and neither has a weights file, the
  build of \<open>a\<close> succeeds with two warnings.
\<close>

theorem stored_detector_two_warnings_counterexample:
  "weights chain_files (''a'' @ ''/detector'') = None
   \<and> snd (build 3 chain_files example_build (StoredDetector ''a'') () ())
       = Inr \<lparr>built = (), loaded = None\<rparr>
   \<and> length (filter is_warning
        (fst (build 3 chain_files example_build (StoredDetector ''a'') () ()))) = 2"
  by (simp add: chain_build) (simp add: chain_files_def)

text \<open>
  C4, amended: when the weights file of a stored detector is absent and the build of the
  configuration it loads succeeds, \<open>build\<close> returns the detector of that inner build
  unchanged, the condition is not raised as an error, and \<open>build\<close> logs exactly one
  warning after the lines of the inner build: one warning in all when the inner build logs
  none.
\<close>

theorem stored_detector_missing_weights:
  assumes "configs F p = Some cfg"
    and "map_of cfg ''detector'' = Some (DetectorValue dc)"
    and "dc \<noteq> StoredDetector p"
    and "build n F B dc m save_dir = (lg, Inr det)"
    and "weights F (p @ ''/detector'') = None"
  shows "build (Suc n) F B (StoredDetector p) m save_dir
           = (LoadingConfig (Some ''detector'') p # lg @ [MissingWeights p], Inr det)
       \<and> length (filter is_warning (fst (build (Suc n) F B (StoredDetector p) m save_dir)))
           = length (filter is_warning lg) + 1"
proof -
  have l: "load_config F p (Some ''detector'') DetectorConfig
          = ([LoadingConfig (Some ''detector'') p], Inr (DetectorValue dc))"
    using assms(1,2) by (simp add: load_config_def)
  have g: "\<not> (case dc of StoredDetector q \<Rightarrow> q = p | OtherDetector _ \<Rightarrow> False)"
    using assms(3) by (cases dc) auto
  have w: "load_weights F det (p @ ''/detector'') = Inl FileNotFoundError"
    using assms(5) by (simp add: load_weights_def)
  have "build (Suc n) F B (StoredDetector p) m save_dir
           = (LoadingConfig (Some ''detector'') p # lg @ [MissingWeights p], Inr det)"
    using l g w assms(4) by simp
  then show ?thesis by simp
qed

theorem stored_detector_missing_weights_witness:
  "build 2 chain_files example_build (StoredDetector ''b'') () ()
     = ([LoadingConfig (Some ''detector'') ''b'', MissingWeights ''b''],
        Inr \<lparr>built = (), loaded = None\<rparr>)
   \<and> length (filter is_warning
        (fst (build 2 chain_files example_build (StoredDetector ''b'') () ()))) = 1"
proof -
  have h1: "configs chain_files ''b'' = Some [(''detector'', DetectorValue (OtherDetector ()))]"
    by (simp add: chain_files_def)
  have h2: "map_of [(''detector'', DetectorValue (OtherDetector ()))] ''detector''
      = Some (DetectorValue (OtherDetector ()) :: unit cfg_value)" by simp
  have h3: "OtherDetector () \<noteq> StoredDetector ''b''" by simp
  have h4: "build 1 chain_files example_build (OtherDetector ()) () ()
      = ([], Inr \<lparr>built = (), loaded = None\<rparr>)"
    by (simp add: example_build_def)
  have h5: "weights chain_files (''b'' @ ''/detector'') = None"
    by (simp add: chain_files_def)
  from stored_detector_missing_weights [OF h1 h2 h3 h4 h5]
  show ?thesis by (simp add: eval_nat_numeral)
qed

section \<open>Properties of the training driver\<close>

lemma epochs_raises:
  "\<exists>lg' e. epochs E dummy train_loader test_loader forward_fn state rng lg (epoch # rest)
     = (lg', Inl e)"
  by (auto simp: apply_model_call_def split: prod.splits sum.splits list.splits)

lemma train_and_evaluate_raises:
  assumes "1 \<le> num_epochs cfg"
  shows "\<exists>lg e. train_and_evaluate E cfg = (lg, Inl e)"
proof (cases "debug cfg")
  case True
  then show ?thesis by (simp add: train_and_evaluate_def)
next
  case False
  have u: "[1 .. num_epochs cfg] = 1 # [2 .. num_epochs cfg]"
    using assms by (simp add: upto_rec1)
  obtain train_loader test_loader where l:
    "get_data_loaders E (cfg_batch_size cfg) = (train_loader, test_loader)"
    by (cases "get_data_loaders E (cfg_batch_size cfg)") auto
  obtain rng init_rng where k: "split E (PRNGKey E 0) = (rng, init_rng)"
    by (cases "split E (PRNGKey E 0)") auto
  have "train_and_evaluate E cfg
      = epochs E (no_clearml cfg) train_loader test_loader (reference_forward E (model_path cfg))
          (create_train_state E init_rng cfg) rng [] (1 # [2 .. num_epochs cfg])"
    using False l k u by (simp add: train_and_evaluate_def del: epochs.simps)
  then show ?thesis using epochs_raises by metis
qed

lemma record_metrics_no_line:
  "record_metrics dummy it em lg ms = (em', lg') \<Longrightarrow>
     \<forall>ev \<in> set lg. \<not> is_metrics_line ev \<Longrightarrow> \<forall>ev \<in> set lg'. \<not> is_metrics_line ev"
  by (induction ms arbitrary: em lg) (auto simp: report_scalar_def split: if_splits)

lemma train_batches_no_line:
  "train_batches R D dummy forward_fn state em lg bs = (lg', r) \<Longrightarrow>
     \<forall>ev \<in> set lg. \<not> is_metrics_line ev \<Longrightarrow> \<forall>ev \<in> set lg'. \<not> is_metrics_line ev"
proof (induction bs arbitrary: state em lg)
  case Nil
  then show ?case by simp
next
  case (Cons b bs)
  show ?case
  proof (cases "apply_model_call R D state b (Some forward_fn)")
    case (Inl e)
    with Cons.prems show ?thesis by simp
  next
    case (Inr gm)
    obtain grads ms where gm: "gm = (grads, ms)" by (cases gm)
    obtain em1 lg1 where rm:
      "record_metrics dummy (step (update_model state grads)) em lg ms = (em1, lg1)"
      by (cases "record_metrics dummy (step (update_model state grads)) em lg ms") auto
    have "\<forall>ev \<in> set lg1. \<not> is_metrics_line ev"
      using record_metrics_no_line[OF rm Cons.prems(2)] .
    moreover have
      "train_batches R D dummy forward_fn (update_model state grads) em1 lg1 bs = (lg', r)"
      using Cons.prems(1) Inr gm rm by (simp add: Let_def)
    ultimately show ?thesis by (rule Cons.IH [rotated])
  qed
qed

lemma train_epoch_no_line:
  "train_epoch R D dummy state train_loader rng lg forward_fn = (lg', r) \<Longrightarrow>
     \<forall>ev \<in> set lg. \<not> is_metrics_line ev \<Longrightarrow> \<forall>ev \<in> set lg'. \<not> is_metrics_line ev"
  by (auto simp: train_epoch_def split: if_splits prod.splits sum.splits
      dest!: train_batches_no_line)

lemma epochs_no_line:
  assumes "epochs E dummy train_loader test_loader forward_fn state rng lg es = (lg', r)"
    and "\<forall>ev \<in> set lg. \<not> is_metrics_line ev"
  shows "\<forall>ev \<in> set lg'. \<not> is_metrics_line ev"
proof (cases es)
  case Nil
  with assms show ?thesis by simp
next
  case (Cons epoch rest)
  obtain rng' input_rng where k: "split E rng = (rng', input_rng)"
    by (cases "split E rng") auto
  let ?lg1 = "report_scalar dummy lg
      (Scalar ''epoch'' ''epoch'' (Num (real_of_int epoch)) (step state))"
  obtain lg2 r2 where te:
    "train_epoch (rt E) (value_and_grad E) dummy state train_loader input_rng ?lg1 forward_fn
       = (lg2, r2)"
    by (cases "train_epoch (rt E) (value_and_grad E) dummy state train_loader input_rng ?lg1
          forward_fn") auto
  have "\<forall>ev \<in> set ?lg1. \<not> is_metrics_line ev"
    using assms(2) by (simp add: report_scalar_def)
  from train_epoch_no_line[OF te this] have 2: "\<forall>ev \<in> set lg2. \<not> is_metrics_line ev" .
  have "lg' = lg2"
    using assms(1) Cons k te
    by (auto simp: apply_model_call_def Let_def split: sum.splits list.splits prod.splits)
  with 2 show ?thesis by simp
qed

lemma train_and_evaluate_logs_no_metrics_line:
  "\<forall>ev \<in> set (fst (train_and_evaluate E cfg)). \<not> is_metrics_line ev"
proof (cases "debug cfg")
  case True
  then show ?thesis by (simp add: train_and_evaluate_def)
next
  case False
  obtain train_loader test_loader where l:
    "get_data_loaders E (cfg_batch_size cfg) = (train_loader, test_loader)"
    by (cases "get_data_loaders E (cfg_batch_size cfg)") auto
  obtain rng init_rng where k: "split E (PRNGKey E 0) = (rng, init_rng)"
    by (cases "split E (PRNGKey E 0)") auto
  have "train_and_evaluate E cfg
      = epochs E (no_clearml cfg) train_loader test_loader (reference_forward E (model_path cfg))
          (create_train_state E init_rng cfg) rng [] [1 .. num_epochs cfg]"
    using False l k by (simp add: train_and_evaluate_def)
  then show ?thesis
    using epochs_no_line [of E "no_clearml cfg" train_loader test_loader
        "reference_forward E (model_path cfg)" "create_train_state E init_rng cfg" rng "[]"
        "[1 .. num_epochs cfg]" "fst (train_and_evaluate E cfg)" "snd (train_and_evaluate E cfg)"]
    by simp
qed

lemma example_update:
  "update_model (example_state A P L) 0 = (example_state A P L)\<lparr>step := 1\<rparr>"
  by (simp add: update_model_def apply_gradients_def example_state_def example_tx_def)

lemma example_train_epoch:
  "train_epoch methods_eager example_grad False (example_create () example_config)
     example_loader () [Scalar ''epoch'' ''epoch'' (Num 1) 0] (example_reference ''model'')
   = ([Scalar ''epoch'' ''epoch'' (Num 1) 0, Scalar ''Training'' ''loss'' (Num (5 / 3)) 1,
       Scalar ''Training'' ''output_loss'' (Num 0) 1,
       Scalar ''Training'' ''consistency_loss'' (Num (5 / 3)) 1],
      Inr ((example_create () example_config)\<lparr>step := 1\<rparr>,
           [(''loss'', Num (5 / 3)), (''output_loss'', Num 0),
            (''consistency_loss'', Num (5 / 3))]))"
  using example_three_layers
  by (simp add: train_epoch_def example_loader_def apply_model_call_def example_create_def
      example_reference_def example_update report_scalar_def scalar_mean_def)

lemma example_train_epoch_jax_eager:
  "train_epoch jax_eager example_grad False (example_create () example_config)
     example_loader () [Scalar ''epoch'' ''epoch'' (Num 1) 0] (example_reference ''model'')
   = ([Scalar ''epoch'' ''epoch'' (Num 1) 0], Inl AttributeError)"
  using example_three_layers_jax
  by (simp add: train_epoch_def example_loader_def apply_model_call_def example_create_def
      example_reference_def)

lemma example_train_epoch_jax_jit:
  "train_epoch jax_jit example_grad False (example_create () example_config)
     example_loader () [Scalar ''epoch'' ''epoch'' (Num 1) 0] (example_reference ''model'')
   = ([Scalar ''epoch'' ''epoch'' (Num 1) 0], Inl TypeError)"
  by (simp add: train_epoch_def example_loader_def apply_model_call_def apply_model_jit
      jax_jit_def)

text \<open>
  C5: \<open>train_and_evaluate\<close> runs \<open>num_epochs\<close> epochs, evaluates one held-out batch
  with \<open>apply_model\<close> after each and logs the epoch, train and test metrics. With two
  epochs configured and an array class that has the methods, the run trains the first
  epoch and then stops: the evaluation call passes two arguments to \<open>apply_model\<close>,
  which takes three, and raises \<open>TypeError\<close>. On the arrays of \<open>jax.numpy\<close> the run
  stops at the first training batch, with \<open>AttributeError\<close> when jit is disabled and
  with \<open>TypeError\<close> in the runtime of the repository. In no case is a METRICS line
  logged or the second epoch started.
\<close>

theorem train_and_evaluate_stops_in_first_epoch:
  "train_and_evaluate (example_env methods_eager) example_config
     = ([Scalar ''epoch'' ''epoch'' (Num 1) 0, Scalar ''Training'' ''loss'' (Num (5 / 3)) 1,
         Scalar ''Training'' ''output_loss'' (Num 0) 1,
         Scalar ''Training'' ''consistency_loss'' (Num (5 / 3)) 1],
        Inl TypeError)
   \<and> train_and_evaluate (example_env jax_eager) example_config
     = ([Scalar ''epoch'' ''epoch'' (Num 1) 0], Inl AttributeError)
   \<and> train_and_evaluate (example_env jax_jit) example_config
     = ([Scalar ''epoch'' ''epoch'' (Num 1) 0], Inl TypeError)"
proof -
  have u: "[1 .. num_epochs example_config] = [1, 2]"
    by (simp add: example_config_def upto_rec1)
  have s: "step (example_create () example_config) = 0"
    by (simp add: example_create_def example_state_def)
  have c: "debug example_config = False" "no_clearml example_config = False"
    "model_path example_config = ''model''"
    by (simp_all add: example_config_def)
  have b: "batches example_loader = [((), (), ())]"
    by (simp add: example_loader_def)
  have 1: "train_and_evaluate (example_env methods_eager) example_config
     = ([Scalar ''epoch'' ''epoch'' (Num 1) 0, Scalar ''Training'' ''loss'' (Num (5 / 3)) 1,
         Scalar ''Training'' ''output_loss'' (Num 0) 1,
         Scalar ''Training'' ''consistency_loss'' (Num (5 / 3)) 1],
        Inl TypeError)"
    by (simp add: train_and_evaluate_def u s c b example_env_def example_loaders_def
        example_key_def example_split_def report_scalar_def apply_model_call_def
        example_train_epoch)
  have 2: "train_and_evaluate (example_env jax_eager) example_config
     = ([Scalar ''epoch'' ''epoch'' (Num 1) 0], Inl AttributeError)"
    by (simp add: train_and_evaluate_def u s c b example_env_def example_loaders_def
        example_key_def example_split_def report_scalar_def example_train_epoch_jax_eager)
  have 3: "train_and_evaluate (example_env jax_jit) example_config
     = ([Scalar ''epoch'' ''epoch'' (Num 1) 0], Inl TypeError)"
    by (simp add: train_and_evaluate_def u s c b example_env_def example_loaders_def
        example_key_def example_split_def report_scalar_def example_train_epoch_jax_jit)
  from 1 2 3 show ?thesis by simp
qed

section \<open>Properties of backdoored datasets\<close>

text \<open>
  C9: after \<open>__post_init__\<close>, when the node's \<open>no_augmentation\<close> flag is set and
  the original configuration carries the attribute, the original's \<open>no_augmentation\<close>
  equals the node's. When the flag is not set, or the original does not carry the
  attribute, the original is left as it is. \<open>__post_init__\<close> raises nothing.
\<close>

theorem post_init_propagates_no_augmentation:
  "\<exists>f' r' orig'.
      post_init super_post_init f r orig bd = Inr (BackdoorData f' r' orig' bd)
    \<and> (f', r') = (case super_post_init of None \<Rightarrow> (f, r) | Some g \<Rightarrow> g (f, r))
    \<and> (f' \<and> get_no_augmentation orig \<noteq> None \<longrightarrow> get_no_augmentation orig' = Some f')
    \<and> (\<not> f' \<or> get_no_augmentation orig = None \<longrightarrow> orig' = orig)"
proof -
  obtain f' r' where fr: "(case super_post_init of None \<Rightarrow> (f, r) | Some g \<Rightarrow> g (f, r)) = (f', r')"
    by (cases "case super_post_init of None \<Rightarrow> (f, r) | Some g \<Rightarrow> g (f, r)") auto
  show ?thesis
  proof (cases f')
    case False
    with fr show ?thesis by (auto simp: post_init_def)
  next
    case True
    show ?thesis
    proof (cases orig)
      case (Dataset a q)
      with True fr show ?thesis by (cases a) (auto simp: post_init_def)
    next
      case (BackdoorData g q o' b')
      with True fr show ?thesis by (auto simp: post_init_def)
    qed
  qed
qed

theorem post_init_propagates_no_augmentation_witness:
  "post_init None True 0 (Dataset (Some False) 1) ''trigger''
     = Inr (BackdoorData True 0 (Dataset (Some True) 1) ''trigger'')
   \<and> post_init None True 0 (Dataset None 1) ''trigger''
     = Inr (BackdoorData True 0 (Dataset None 1) ''trigger'')
   \<and> post_init None False 0 (Dataset (Some True) 1) ''trigger''
     = Inr (BackdoorData False 0 (Dataset (Some True) 1) ''trigger'')"
proof -
  from post_init_propagates_no_augmentation [of None True 0 "Dataset (Some False) 1" "''trigger''"]
  have "post_init None True 0 (Dataset (Some False) 1) ''trigger''
     = Inr (BackdoorData True 0 (Dataset (Some True) 1) ''trigger'')"
    by (auto simp: post_init_def)
  then show ?thesis by (simp add: post_init_def)
qed

lemma refs_in_mono: "refs_in n cfg \<Longrightarrow> n \<le> m \<Longrightarrow> refs_in m cfg"
  by (induction cfg) auto

lemma transforms_of_agree:
  "refs_in n cfg \<Longrightarrow> \<forall>a<n. g ! a = h ! a \<Longrightarrow> transforms_of g cfg = transforms_of h cfg"
  by (induction cfg) auto

lemma get_transforms_frame:
  "refs_in (length h) cfg \<Longrightarrow> get_transforms h cfg = (h', t) \<Longrightarrow>
     length h \<le> length h' \<and> t < length h' \<and> (\<forall>a<length h. h' ! a = h ! a)
     \<and> h' ! t = transforms_of h cfg"
proof (induction cfg arbitrary: h h' t)
  case (Dataset a r)
  then show ?case by auto
next
  case (BackdoorData f r orig bd)
  let ?h0 = "h @ [[]]"
  obtain h1 r1 where g: "get_transforms ?h0 orig = (h1, r1)"
    by (cases "get_transforms ?h0 orig") auto
  have r: "r < length h" and ro: "refs_in (length h) orig"
    using BackdoorData.prems(1) by auto
  have "refs_in (length ?h0) orig" using ro by (rule refs_in_mono) simp
  from BackdoorData.IH [OF this g] have
    l1: "length ?h0 \<le> length h1" and r1: "r1 < length h1"
    and f1: "\<forall>a<length ?h0. h1 ! a = ?h0 ! a" and c1: "h1 ! r1 = transforms_of ?h0 orig"
    by auto
  have t0: "h1 ! length h = []" using f1 by (simp add: nth_append)
  have old: "h1 ! a = h ! a" if "a < length h" for a
    using f1 that by (simp add: nth_append)
  have "transforms_of ?h0 orig = transforms_of h orig"
    using ro by (rule transforms_of_agree) (simp add: nth_append)
  with c1 have c1': "h1 ! r1 = transforms_of h orig" by simp
  have lt: "length h < length h1" using l1 by simp
  have res: "h' = h1[length h := transforms_of h orig @ h ! r @ [bd]]" and t: "t = length h"
    using BackdoorData.prems(2) g t0 c1' r lt old[OF r] by (auto simp: Let_def)
  show ?case
    using res t lt old by auto
qed

text \<open>
  C10: \<open>get_transforms\<close> of a \<open>BackdoorData\<close> node returns a list that holds the
  original's transforms, then the node's inherited transforms, then the backdoor once, in
  the last position. The list is a new object: every list that was in the store before the
  call, the node's \<open>transforms\<close> field among them, is unchanged. So a later call, in
  any store in which the configuration's lists have the same contents (as after the
  configuration is saved and loaded again), returns the same contents.
\<close>

theorem get_transforms_appends_backdoor_once:
  assumes "refs_in (length h) (BackdoorData f r orig bd)"
    and "get_transforms h (BackdoorData f r orig bd) = (h', t)"
    and "get_transforms h orig = (ho, ro)"
    and "length h \<le> length g" and "\<forall>a<length h. g ! a = h ! a"
    and "get_transforms g (BackdoorData f r orig bd) = (g', u)"
  shows "h' ! t = ho ! ro @ h ! r @ [bd]
       \<and> length h \<le> t \<and> (\<forall>a<length h. h' ! a = h ! a)
       \<and> g' ! u = h' ! t"
proof -
  have ro: "refs_in (length h) orig" using assms(1) by simp
  from get_transforms_frame [OF assms(1,2)] have
    1: "\<forall>a<length h. h' ! a = h ! a"
    and 2: "h' ! t = transforms_of h orig @ h ! r @ [bd]" by auto
  from get_transforms_frame [OF ro assms(3)] have 3: "ho ! ro = transforms_of h orig" by simp
  have t: "t = length h" using assms(2) by (auto simp: Let_def split: prod.splits)
  have "refs_in (length g) (BackdoorData f r orig bd)"
    using assms(1,4) by (rule refs_in_mono)
  from get_transforms_frame [OF this assms(6)]
  have "g' ! u = transforms_of g (BackdoorData f r orig bd)" by simp
  also have "\<dots> = transforms_of h (BackdoorData f r orig bd)"
    using assms(1,5) by (rule transforms_of_agree)
  finally have 4: "g' ! u = h' ! t" using 2 by simp
  from 1 2 3 4 t show ?thesis by simp
qed

theorem get_transforms_appends_backdoor_once_witness:
  "get_transforms example_lists example_backdoor_data
     = ([[''crop''], [''noise''], [''crop'', ''noise'', ''trigger'']], 2)
   \<and> get_transforms [[''crop''], [''noise''], [''crop'', ''noise'', ''trigger'']]
        example_backdoor_data
     = ([[''crop''], [''noise''], [''crop'', ''noise'', ''trigger''],
         [''crop'', ''noise'', ''trigger'']], 3)"
proof -
  let ?h' = "[[''crop''], [''noise''], [''crop'', ''noise'', ''trigger'']]"
  let ?g' = "[[''crop''], [''noise''], [''crop'', ''noise'', ''trigger''],
         [''crop'', ''noise'', ''trigger'']]"
  have h1: "refs_in (length example_lists) (BackdoorData False 1 (Dataset (Some False) 0) ''trigger'')"
    by (simp add: example_lists_def)
  have h2: "get_transforms example_lists (BackdoorData False 1 (Dataset (Some False) 0) ''trigger'')
      = (?h', 2)"
    by (simp add: example_lists_def)
  have h3: "get_transforms example_lists (Dataset (Some False) 0) = (example_lists, 0)"
    by simp
  have h4: "length example_lists \<le> length ?h'" by (simp add: example_lists_def)
  have h5: "\<forall>a<length example_lists. ?h' ! a = example_lists ! a"
    by (simp add: example_lists_def less_Suc_eq)
  have h6: "get_transforms ?h' (BackdoorData False 1 (Dataset (Some False) 0) ''trigger'') = (?g', 3)"
    by simp
  from get_transforms_appends_backdoor_once [OF h1 h2 h3 h4 h5 h6] h2 h6
  show ?thesis by (simp add: example_backdoor_data_def)
qed

end
